theory Spec2Isabelle
  imports Complex_Main
begin

section \<open>The real-url proxy server (webserver.py)\<close>

text \<open>
  A shallow embedding of \<^verbatim>\<open>webserver.py\<close>. Objects are records that are passed in and
  returned updated; a Python exception is a value of \<open>py_error\<close>; the collaborators of
  the module (the provider clients \<^verbatim>\<open>DouYu\<close>, \<^verbatim>\<open>BiliBili\<close>, \<^verbatim>\<open>huya\<close>, the call
  \<^verbatim>\<open>requests.get\<close> and the clock \<^verbatim>\<open>datetime.now()\<close>) are the fields of a record
  \<open>world\<close> that says what each of them answers during one call. Calls to the logger
  only write output and are left out. The lock of \<^verbatim>\<open>refresh_real_url\<close> is left out too:
  the model runs one call at a time.
\<close>

subsection \<open>Python values\<close>

datatype py_error = NameError | KeyError | IndexError | ClientError

text \<open>What a call into a collaborator does: it raises, or it returns a value.\<close>

datatype 'a outcome = Raises | Returns 'a

text \<open>\<^verbatim>\<open>d[k]\<close> on a dict raises KeyError for a missing key.\<close>

definition py_getitem :: "('k \<rightharpoonup> 'v) \<Rightarrow> 'k \<Rightarrow> py_error + 'v" where
  "py_getitem d k = (case d k of None \<Rightarrow> Inl KeyError | Some v \<Rightarrow> Inr v)"

text \<open>\<^verbatim>\<open>k in d\<close> on a dict.\<close>

definition contains :: "('k \<rightharpoonup> 'v) \<Rightarrow> 'k \<Rightarrow> bool" where
  "contains d k \<longleftrightarrow> \<not> Option.is_none (d k)"

text \<open>
  \<^verbatim>\<open>xs[i]\<close> on a list: a negative index counts from the end, and an index outside
  \<open>[-len, len)\<close> raises IndexError.
\<close>

definition py_index :: "'a list \<Rightarrow> int \<Rightarrow> py_error + 'a" where
  "py_index xs i =
     (let n = int (length xs) in
      if 0 \<le> i \<and> i < n then Inr (xs ! nat i)
      else if - n \<le> i \<and> i < 0 then Inr (xs ! nat (n + i))
      else Inl IndexError)"

text \<open>
  Timestamps are seconds since \<^verbatim>\<open>datetime.min\<close>, so that
  \<^verbatim>\<open>(a - b).total_seconds()\<close> is \<open>a - b\<close>.
\<close>

type_synonym datetime = real

definition datetime_min :: datetime where
  "datetime_min = 0"

subsection \<open>Timers\<close>

text \<open>
  A \<^verbatim>\<open>threading.Timer\<close> object: the delay it was built with, whether \<^verbatim>\<open>start()\<close>
  was called and whether \<^verbatim>\<open>cancel()\<close> was called. Its callback is always
  \<^verbatim>\<open>self.refresh_real_url\<close>.
\<close>

record timer =
  interval :: real
  started :: bool
  cancelled :: bool

definition Timer :: "real \<Rightarrow> timer" where
  "Timer d = \<lparr>interval = d, started = False, cancelled = False\<rparr>"

definition start :: "timer \<Rightarrow> timer" where
  "start t = t\<lparr>started := True\<rparr>"

definition cancel :: "timer \<Rightarrow> timer" where
  "cancel t = t\<lparr>cancelled := True\<rparr>"

text \<open>A timer that will still fire: started and not cancelled.\<close>

definition pending :: "timer \<Rightarrow> bool" where
  "pending t \<longleftrightarrow> started t \<and> \<not> cancelled t"

subsection \<open>RealUrlExtractor\<close>

text \<open>
  The fields of \<^verbatim>\<open>RealUrlExtractor\<close>; \<open>'u\<close> is the type of a resolution, and
  \<open>None\<close> is Python's \<^verbatim>\<open>None\<close>. The field \<open>timers\<close> holds every Timer object the
  extractor has created, newest first: its head is \<^verbatim>\<open>self.refresh_timer\<close>, and the
  others are the timers that attribute pointed to before. The attribute exists exactly
  when the list is not empty.
\<close>

record 'u extractor =
  room :: string
  real_url :: "'u option"
  last_valid_real_url :: "'u option"
  auto_refresh_interval :: int
  last_refresh_time :: datetime
  timers :: "timer list"

definition RealUrlExtractor_init :: "string \<Rightarrow> int \<Rightarrow> 'u extractor" where
  "RealUrlExtractor_init r ari =
     \<lparr>room = r, real_url = None, last_valid_real_url = None,
      auto_refresh_interval = ari, last_refresh_time = datetime_min,
      timers = (if ari > 0 then [Timer (of_int ari)] else [])\<rparr>"

text \<open>
  \<^verbatim>\<open>reset_refresh_timer\<close>. Python's \<^verbatim>\<open>/\<close> on an int gives half the interval as a
  float. \<^verbatim>\<open>__init__\<close> creates the first Timer under the same test
  \<^verbatim>\<open>auto_refresh_interval > 0\<close> and nothing assigns the interval afterwards, so
  \<^verbatim>\<open>self.refresh_timer\<close> exists whenever it is cancelled here; with an empty list there
  is no timer object to cancel.
\<close>

definition reset_refresh_timer ::
  "bool \<Rightarrow> ('u, 'z) extractor_scheme \<Rightarrow> ('u, 'z) extractor_scheme" where
  "reset_refresh_timer failover s =
     (if auto_refresh_interval s > 0 then
        (let old = (case timers s of [] \<Rightarrow> [] | t # ts \<Rightarrow> cancel t # ts);
             refresh_interval =
               (if failover then of_int (auto_refresh_interval s) / 2
                else of_int (auto_refresh_interval s))
         in s\<lparr>timers := start (Timer refresh_interval) # old\<rparr>)
      else s)"

text \<open>
  \<^verbatim>\<open>RealUrlExtractor._extract_real_url\<close>, the part every subclass runs last. The
  validity predicate \<^verbatim>\<open>_is_url_valid\<close> of the subclass is the parameter \<open>valid\<close>, and
  \<open>now\<close> is what \<^verbatim>\<open>datetime.now()\<close> returns.
\<close>

definition RealUrlExtractor_extract_real_url ::
  "('u option \<Rightarrow> bool) \<Rightarrow> datetime \<Rightarrow> ('u, 'z) extractor_scheme \<Rightarrow> ('u, 'z) extractor_scheme" where
  "RealUrlExtractor_extract_real_url valid now s =
     (let failover = \<not> valid (real_url s);
          s1 = (if valid (real_url s) then s\<lparr>last_valid_real_url := real_url s\<rparr>
                else (case last_valid_real_url s of
                        Some v \<Rightarrow> s\<lparr>real_url := Some v\<rparr>
                      | None \<Rightarrow> s));
          s2 = s1\<lparr>last_refresh_time := now\<rparr>
      in reset_refresh_timer failover s2)"

text \<open>
  \<^verbatim>\<open>RealUrlExtractor.get_real_url\<close>: the forced refresh. \<open>extract\<close> is the
  \<^verbatim>\<open>_extract_real_url\<close> of the subclass; it returns the exception it raised, if any.
\<close>

definition RealUrlExtractor_get_real_url ::
  "(('u, 'z) extractor_scheme \<Rightarrow> py_error option \<times> ('u, 'z) extractor_scheme) \<Rightarrow>
   string option \<Rightarrow> ('u, 'z) extractor_scheme \<Rightarrow> py_error option \<times> ('u, 'z) extractor_scheme" where
  "RealUrlExtractor_get_real_url extract bit_rate s =
     (if Option.is_none (real_url s) \<or> bit_rate = Some ''refresh'' then extract s
      else (None, s))"

text \<open>
  \<^verbatim>\<open>refresh_real_url\<close>, the callback of the timers: whatever \<^verbatim>\<open>_extract_real_url\<close>
  raises is swallowed by the bare \<^verbatim>\<open>except: pass\<close>.
\<close>

definition refresh_real_url :: "('s \<Rightarrow> py_error option \<times> 's) \<Rightarrow> 's \<Rightarrow> 's" where
  "refresh_real_url extract s = snd (extract s)"

subsection \<open>The collaborators\<close>

text \<open>
  What \<^verbatim>\<open>DouYu(room).get_real_url()\<close> and \<^verbatim>\<open>BiliBili(room).get_real_url()\<close> can
  put into \<^verbatim>\<open>real_url\<close>: the string \<^verbatim>\<open>'None'\<close>, which is also what the extractor
  stores when the client raises, or a dict from labels to URLs.
\<close>

datatype url_value = NoneStr | UrlDict "string \<rightharpoonup> string"

text \<open>One entry of \<^verbatim>\<open>huya.live_url_infos\<close>.\<close>

record cdn_info =
  hls_url :: string
  stream_name :: string
  base_url :: string

text \<open>
  What the collaborators answer during one call: the three readings of
  \<^verbatim>\<open>datetime.now()\<close> (in \<^verbatim>\<open>RealUrlExtractor._extract_real_url\<close>, in the test of
  the 120 seconds, and after the fetch of the variant list), the provider clients by
  room, and \<^verbatim>\<open>requests.get\<close> by URL, returning \<^verbatim>\<open>status_code\<close> and \<^verbatim>\<open>text\<close>.
  \<open>huya_update_live_url_info\<close> returns the values of the new \<^verbatim>\<open>live_url_infos\<close>,
  in the order of the dict.
\<close>

record world =
  now_refresh :: datetime
  now_check :: datetime
  now_fetched :: datetime
  DouYu_client :: "string \<Rightarrow> url_value option outcome"
  BiliBili_client :: "string \<Rightarrow> url_value option outcome"
  huya_update_live_url_info :: "string \<Rightarrow> cdn_info list outcome"
  huya_get_real_url :: "string \<Rightarrow> string option \<Rightarrow> string list outcome"
  requests_get :: "string \<Rightarrow> (int \<times> string) outcome"

subsection \<open>DouYuRealUrlExtractor\<close>

type_synonym douyu_extractor = "url_value extractor"

text \<open>\<^verbatim>\<open>url is not None and url != 'None'\<close>\<close>

definition DouYu_is_url_valid :: "url_value option \<Rightarrow> bool" where
  "DouYu_is_url_valid url =
     (case url of None \<Rightarrow> False | Some NoneStr \<Rightarrow> False | Some (UrlDict m) \<Rightarrow> True)"

definition DouYu_extract_real_url :: "world \<Rightarrow> douyu_extractor \<Rightarrow> py_error option \<times> douyu_extractor" where
  "DouYu_extract_real_url w s =
     (let s1 = (case DouYu_client w (room s) of
                  Returns v \<Rightarrow> s\<lparr>real_url := v\<rparr>
                | Raises \<Rightarrow> s\<lparr>real_url := Some NoneStr\<rparr>)
      in (None, RealUrlExtractor_extract_real_url DouYu_is_url_valid (now_refresh w) s1))"

text \<open>
  The statements of \<^verbatim>\<open>DouYuRealUrlExtractor.get_real_url\<close> after the selector
  \<^verbatim>\<open>'refresh'\<close> has been replaced by \<^verbatim>\<open>None\<close>: what is returned for a selector and
  the current \<^verbatim>\<open>real_url\<close>.
\<close>

definition DouYu_select :: "string option \<Rightarrow> url_value option \<Rightarrow> py_error + string option" where
  "DouYu_select bit_rate url =
     (if \<not> DouYu_is_url_valid url then Inr None
      else case url of
        None \<Rightarrow> Inr None
      | Some NoneStr \<Rightarrow> Inr None
      | Some (UrlDict m) \<Rightarrow>
          if bit_rate = None \<or> bit_rate = Some [] then
            (if contains m ''flv'' then map_sum id Some (py_getitem m ''flv'')
             else if contains m ''2000p'' then map_sum id Some (py_getitem m ''2000p'')
             else map_sum id Some (py_getitem m ''900p''))
          else if contains m (the bit_rate) then map_sum id Some (py_getitem m (the bit_rate))
          else Inr None)"

definition DouYu_get_real_url ::
  "world \<Rightarrow> string option \<Rightarrow> douyu_extractor \<Rightarrow> (py_error + string option) \<times> douyu_extractor" where
  "DouYu_get_real_url w bit_rate0 s0 =
     (case RealUrlExtractor_get_real_url (DouYu_extract_real_url w) bit_rate0 s0 of
        (Some e, s) \<Rightarrow> (Inl e, s)
      | (None, s) \<Rightarrow>
          (let bit_rate = (if bit_rate0 = Some ''refresh'' then None else bit_rate0)
           in (DouYu_select bit_rate (real_url s), s)))"

subsection \<open>BilibiliRealUrlExtractor\<close>

type_synonym bilibili_extractor = "url_value extractor"

definition Bilibili_is_url_valid :: "url_value option \<Rightarrow> bool" where
  "Bilibili_is_url_valid url =
     (case url of None \<Rightarrow> False | Some NoneStr \<Rightarrow> False | Some (UrlDict m) \<Rightarrow> True)"

definition Bilibili_extract_real_url ::
  "world \<Rightarrow> bilibili_extractor \<Rightarrow> py_error option \<times> bilibili_extractor" where
  "Bilibili_extract_real_url w s =
     (let s1 = (case BiliBili_client w (room s) of
                  Returns v \<Rightarrow> s\<lparr>real_url := v\<rparr>
                | Raises \<Rightarrow> s\<lparr>real_url := Some NoneStr\<rparr>)
      in (None, RealUrlExtractor_extract_real_url Bilibili_is_url_valid (now_refresh w) s1))"

definition Bilibili_select :: "url_value option \<Rightarrow> py_error + string option" where
  "Bilibili_select url =
     (if \<not> Bilibili_is_url_valid url then Inr None
      else case url of
        None \<Rightarrow> Inr None
      | Some NoneStr \<Rightarrow> Inr None
      | Some (UrlDict m) \<Rightarrow>
          if contains m ''hls_url'' then map_sum id Some (py_getitem m ''hls_url'')
          else map_sum id Some (py_getitem m ''flv_url''))"

definition Bilibili_get_real_url ::
  "world \<Rightarrow> string option \<Rightarrow> bilibili_extractor \<Rightarrow> (py_error + string option) \<times> bilibili_extractor" where
  "Bilibili_get_real_url w bit_rate0 s0 =
     (case RealUrlExtractor_get_real_url (Bilibili_extract_real_url w) bit_rate0 s0 of
        (Some e, s) \<Rightarrow> (Inl e, s)
      | (None, s) \<Rightarrow> (Bilibili_select (real_url s), s))"

subsection \<open>HuYaRealUrlExtractor\<close>

text \<open>
  \<open>live_url_infos\<close> is the field of the \<^verbatim>\<open>huya\<close> client the extractor owns, as
  \<^verbatim>\<open>list(self.huya.live_url_infos.values())\<close>; it is empty until the first
  \<^verbatim>\<open>update_live_url_info()\<close>.
\<close>

record huya_extractor = "string extractor" +
  live_url_infos :: "cdn_info list"
  cdn_index :: int
  last_real_urls :: "string list option"
  last_get_real_url_time :: datetime

definition HuYa_init :: "string \<Rightarrow> int \<Rightarrow> huya_extractor" where
  "HuYa_init r ari =
     extractor.extend (RealUrlExtractor_init r ari)
       \<lparr>live_url_infos = [], cdn_index = - 1, last_real_urls = None,
        last_get_real_url_time = datetime_min\<rparr>"

definition HuYa_is_url_valid :: "string option \<Rightarrow> bool" where
  "HuYa_is_url_valid url \<longleftrightarrow> \<not> Option.is_none url"

text \<open>
  The test before each of the two reads, \<^verbatim>\<open>if self.cdn_index >= n: self.cdn_index = 0\<close>,
  with \<open>n\<close> the length of the list that is read next: the value of \<^verbatim>\<open>cdn_index\<close> after it.
\<close>

definition clamp_cdn_index :: "int \<Rightarrow> nat \<Rightarrow> int" where
  "clamp_cdn_index i n = (if i \<ge> int n then 0 else i)"

text \<open>
  \<^verbatim>\<open>HuYaRealUrlExtractor._extract_real_url\<close>. The call of the client is not inside a
  \<^verbatim>\<open>try\<close>: when it raises, the method raises, and the extractor is as before (a call
  of the client that raises is taken to leave \<^verbatim>\<open>live_url_infos\<close> alone).
\<close>

definition HuYa_extract_real_url :: "world \<Rightarrow> huya_extractor \<Rightarrow> py_error option \<times> huya_extractor" where
  "HuYa_extract_real_url w s =
     (case huya_update_live_url_info w (room s) of
        Raises \<Rightarrow> (Some ClientError, s)
      | Returns infos \<Rightarrow>
          (let s1 = s\<lparr>live_url_infos := infos\<rparr>;
               cdn_count = length infos;
               s2 = s1\<lparr>cdn_index := clamp_cdn_index (cdn_index s1) cdn_count\<rparr>
           in if cdn_count > 0 then
                (case py_index infos (cdn_index s2) of
                   Inl e \<Rightarrow> (Some e, s2)
                 | Inr info \<Rightarrow>
                     (None, RealUrlExtractor_extract_real_url HuYa_is_url_valid (now_refresh w)
                              (s2\<lparr>real_url := Some (hls_url info)\<rparr>)))
              else (None, RealUrlExtractor_extract_real_url HuYa_is_url_valid (now_refresh w)
                            (s2\<lparr>real_url := None\<rparr>))))"

text \<open>
  The statements of \<^verbatim>\<open>HuYaRealUrlExtractor.get_real_url\<close> after the selector
  \<^verbatim>\<open>'refresh'\<close> has been replaced by \<^verbatim>\<open>None\<close>, in the order of the source: the
  selector \<^verbatim>\<open>'switch_cdn'\<close>, the variant list (cached or fetched), the test of the
  index against the variant list, the read.
\<close>

definition HuYa_select ::
  "world \<Rightarrow> string option \<Rightarrow> huya_extractor \<Rightarrow> (py_error + string option) \<times> huya_extractor" where
  "HuYa_select w bit_rate s =
     (let s1 = (if bit_rate = Some ''switch_cdn'' then s\<lparr>cdn_index := cdn_index s + 1\<rparr> else s);
          fetched =
            (if Option.is_none (last_real_urls s1) \<or> now_check w - last_get_real_url_time s1 > 120
             then (case huya_get_real_url w (room s1) bit_rate of
                     Raises \<Rightarrow> Inl ClientError
                   | Returns urls \<Rightarrow>
                       Inr (urls, s1\<lparr>last_real_urls := Some urls,
                                      last_get_real_url_time := now_fetched w\<rparr>))
             else Inr (the (last_real_urls s1), s1))
      in case fetched of
           Inl e \<Rightarrow> (Inl e, s1)
         | Inr (urls, s2) \<Rightarrow>
             if length urls > 0 then
               (let s3 = s2\<lparr>cdn_index := clamp_cdn_index (cdn_index s2) (length urls)\<rparr>
                in (map_sum id Some (py_index urls (cdn_index s3)), s3))
             else (Inr None, s2))"

text \<open>\<^verbatim>\<open>HuYaRealUrlExtractor.get_real_url\<close>: the forced refresh, then the statements above.\<close>

definition HuYa_get_real_url ::
  "world \<Rightarrow> string option \<Rightarrow> huya_extractor \<Rightarrow> (py_error + string option) \<times> huya_extractor" where
  "HuYa_get_real_url w bit_rate0 s0 =
     (case RealUrlExtractor_get_real_url (HuYa_extract_real_url w) bit_rate0 s0 of
        (Some e, s) \<Rightarrow> (Inl e, s)
      | (None, s) \<Rightarrow>
          (let bit_rate = (if bit_rate0 = Some ''refresh'' then None else bit_rate0)
           in HuYa_select w bit_rate s))"

definition reset_last_get_real_url_time :: "huya_extractor \<Rightarrow> huya_extractor" where
  "reset_last_get_real_url_time s = s\<lparr>last_get_real_url_time := datetime_min\<rparr>"

definition HuYa_stream_name :: "huya_extractor \<Rightarrow> py_error + string" where
  "HuYa_stream_name s = map_sum id stream_name (py_index (live_url_infos s) (cdn_index s))"

definition HuYa_base_url :: "huya_extractor \<Rightarrow> py_error + string" where
  "HuYa_base_url s = map_sum id base_url (py_index (live_url_infos s) (cdn_index s))"

subsection \<open>The request handler\<close>

text \<open>\<^verbatim>\<open>str(n)\<close> for a length.\<close>

fun str_nat :: "nat \<Rightarrow> string" where
  "str_nat n =
     (if n < 10 then [char_of (48 + n)]
      else str_nat (n div 10) @ [char_of (48 + n mod 10)])"

declare str_nat.simps [simp del]

text \<open>
  \<^verbatim>\<open>re.sub(r'(^.*?\.ts)', base + r'/\1', content, flags=re.M)\<close>: with \<^verbatim>\<open>re.M\<close> the
  pattern can match only at the start of a line, and \<^verbatim>\<open>.\<close> does not cross a newline,
  so a line that contains \<^verbatim>\<open>.ts\<close> gets \<^verbatim>\<open>base + '/'\<close> in front and every other line
  stays. (The base URL is taken to hold no backslash, which the replacement template
  would read as an escape.)
\<close>

fun split_lines :: "string \<Rightarrow> string list" where
  "split_lines [] = [[]]"
| "split_lines (c # cs) =
     (if c = CHR 0x0A then [] # split_lines cs
      else (case split_lines cs of [] \<Rightarrow> [[c]] | l # ls \<Rightarrow> (c # l) # ls))"

fun join_lines :: "string list \<Rightarrow> string" where
  "join_lines [] = []"
| "join_lines [l] = l"
| "join_lines (l # ls) = l @ [CHR 0x0A] @ join_lines ls"

fun contains_ts :: "string \<Rightarrow> bool" where
  "contains_ts [] = False"
| "contains_ts (c # cs) = (take 3 (c # cs) = ''.ts'' \<or> contains_ts cs)"

definition re_sub_ts :: "string \<Rightarrow> string \<Rightarrow> string" where
  "re_sub_ts base content =
     join_lines (map (\<lambda>l. if contains_ts l then base @ ''/'' @ l else l) (split_lines content))"

text \<open>The manifest the handler builds when the fetch fails.\<close>

definition fallback_manifest :: "string \<Rightarrow> string" where
  "fallback_manifest url =
     ''#EXTM3U'' @ [CHR 0x0A] @ ''#EXT-X-STREAM-INF:PROGRAM-ID=1,BANDWIDTH=1'' @ [CHR 0x0A] @ url"

text \<open>
  The calls \<^verbatim>\<open>response.redirect(to, headers, status)\<close> and
  \<^verbatim>\<open>response.text(body, headers, status)\<close>, with the arguments the handler passes;
  \<open>None\<close> for the headers is Python's \<^verbatim>\<open>None\<close>.
\<close>

datatype response =
  response_redirect string "(string \<rightharpoonup> string) option" int
| response_text string "(string \<rightharpoonup> string) option" int

fun status :: "response \<Rightarrow> int" where
  "status (response_redirect to h st) = st"
| "status (response_text b h st) = st"

fun headers :: "response \<Rightarrow> (string \<rightharpoonup> string) option" where
  "headers (response_redirect to h st) = h"
| "headers (response_text b h st) = h"

text \<open>
  \<^verbatim>\<open>d.update(e)\<close> changes \<^verbatim>\<open>d\<close> in place and returns \<^verbatim>\<open>None\<close>: the pair is the
  value of the call and the dict afterwards.
\<close>

definition dict_update ::
  "('k \<rightharpoonup> 'v) \<Rightarrow> ('k \<rightharpoonup> 'v) \<Rightarrow> ('k \<rightharpoonup> 'v) option \<times> ('k \<rightharpoonup> 'v)" where
  "dict_update d e = (None, d ++ e)"

text \<open>
  The globals of the module: \<^verbatim>\<open>processor_maps\<close>, one entry per provider (\<open>None\<close>
  while the provider is not yet a key), \<^verbatim>\<open>crosHeaders\<close> and
  \<^verbatim>\<open>auto_refresh_interval\<close>.
\<close>

record server =
  processor_maps_douyu :: "(string \<rightharpoonup> douyu_extractor) option"
  processor_maps_bilibili :: "(string \<rightharpoonup> bilibili_extractor) option"
  processor_maps_huya :: "(string \<rightharpoonup> huya_extractor) option"
  crosHeaders :: "string \<rightharpoonup> string"
  global_auto_refresh_interval :: int

definition crosHeaders_init :: "string \<rightharpoonup> string" where
  "crosHeaders_init =
     [''Access-Control-Allow-Origin'' \<mapsto> ''*'',
      ''Access-Control-Allow-Methods'' \<mapsto> ''GET'',
      ''Access-Control-Allow-Headers'' \<mapsto> ''Content-Type, Content-Length, Authorization'']"

definition server_init :: "int \<Rightarrow> server" where
  "server_init ari =
     \<lparr>processor_maps_douyu = None, processor_maps_bilibili = None, processor_maps_huya = None,
      crosHeaders = crosHeaders_init, global_auto_refresh_interval = ari\<rparr>"

text \<open>The last statements of \<^verbatim>\<open>serviceWithRate\<close>, which every path without a \<^verbatim>\<open>return\<close> reaches.\<close>

definition not_found :: "server \<Rightarrow> response \<times> server" where
  "not_found sv =
     (let rsp = ''Not Found'';
          (hdrs, ch) = dict_update (crosHeaders sv)
             [''Content-type'' \<mapsto> ''text/html; charset=gb2312'',
              ''Content-Length'' \<mapsto> str_nat (length rsp)]
      in (response_text rsp hdrs 404, sv\<lparr>crosHeaders := ch\<rparr>))"

text \<open>
  The expression \<^verbatim>\<open>DouYuRealUrlExtractor(room, self.auto_refresh_interval)\<close> in the
  branch of douyu: \<^verbatim>\<open>serviceWithRate\<close> is a function of the module, which has no name
  \<^verbatim>\<open>self\<close>, so evaluating the second argument raises NameError before the
  constructor is called.
\<close>

definition new_DouYuRealUrlExtractor :: "string \<Rightarrow> server \<Rightarrow> py_error + douyu_extractor" where
  "new_DouYuRealUrlExtractor rm sv = Inl NameError"

text \<open>
  \<^verbatim>\<open>serviceWithRate\<close>. An exception inside a \<^verbatim>\<open>try\<close> keeps the changes made to the
  extractor before it, and every path that does not return a response goes on to the
  404 at the end.
\<close>

definition serviceWithRate ::
  "world \<Rightarrow> string \<Rightarrow> string \<Rightarrow> string option \<Rightarrow> server \<Rightarrow> response \<times> server" where
  "serviceWithRate w provider rm bit_rate sv =
     (if provider = ''douyu'' then
        (let douyu_processor_map =
               (case processor_maps_douyu sv of None \<Rightarrow> Map.empty | Some m \<Rightarrow> m)
         in case (case douyu_processor_map rm of
                    None \<Rightarrow> new_DouYuRealUrlExtractor rm sv
                  | Some x \<Rightarrow> Inr x) of
              Inl e \<Rightarrow> not_found (sv\<lparr>processor_maps_douyu := Some douyu_processor_map\<rparr>)
            | Inr x0 \<Rightarrow>
                (case DouYu_get_real_url w bit_rate x0 of
                   (Inr (Some url), x) \<Rightarrow>
                     (response_redirect url (Some (crosHeaders sv)) 301,
                      sv\<lparr>processor_maps_douyu := Some (douyu_processor_map(rm \<mapsto> x))\<rparr>)
                 | (r, x) \<Rightarrow>
                     not_found (sv\<lparr>processor_maps_douyu := Some (douyu_processor_map(rm \<mapsto> x))\<rparr>)))
      else if provider = ''bilibili'' then
        (let bilibili_processor_map =
               (case processor_maps_bilibili sv of None \<Rightarrow> Map.empty | Some m \<Rightarrow> m);
             x0 = (case bilibili_processor_map rm of
                     None \<Rightarrow> RealUrlExtractor_init rm (global_auto_refresh_interval sv)
                   | Some x \<Rightarrow> x)
         in case Bilibili_get_real_url w bit_rate x0 of
              (Inr (Some url), x) \<Rightarrow>
                (response_redirect url (Some (crosHeaders sv)) 301,
                 sv\<lparr>processor_maps_bilibili := Some (bilibili_processor_map(rm \<mapsto> x))\<rparr>)
            | (r, x) \<Rightarrow>
                not_found (sv\<lparr>processor_maps_bilibili := Some (bilibili_processor_map(rm \<mapsto> x))\<rparr>))
      else if provider = ''huya'' then
        (let huya_processor_map =
               (case processor_maps_huya sv of None \<Rightarrow> Map.empty | Some m \<Rightarrow> m);
             x0 = (case huya_processor_map rm of
                     None \<Rightarrow> HuYa_init rm (global_auto_refresh_interval sv)
                   | Some x \<Rightarrow> x)
         in case HuYa_get_real_url w bit_rate x0 of
              (Inr (Some url), x) \<Rightarrow>
                (let (status_code, m3u8_content, x1) =
                       (case requests_get w url of
                          Raises \<Rightarrow>
                            (200, fallback_manifest url, x\<lparr>cdn_index := cdn_index x + 1\<rparr>)
                        | Returns (code, txt) \<Rightarrow>
                            (case HuYa_base_url x of
                               Inl e \<Rightarrow>
                                 (code, fallback_manifest url, x\<lparr>cdn_index := cdn_index x + 1\<rparr>)
                             | Inr b \<Rightarrow> (code, re_sub_ts b txt, x)));
                     x2 = (if status_code = 403 then reset_last_get_real_url_time x1 else x1);
                     (hdrs, ch) = dict_update (crosHeaders sv)
                        [''Content-type'' \<mapsto> ''application/vnd.apple.mpegurl'',
                         ''Content-Length'' \<mapsto> str_nat (length m3u8_content)]
                 in (response_text m3u8_content hdrs status_code,
                     sv\<lparr>processor_maps_huya := Some (huya_processor_map(rm \<mapsto> x2)),
                        crosHeaders := ch\<rparr>))
            | (r, x) \<Rightarrow>
                not_found (sv\<lparr>processor_maps_huya := Some (huya_processor_map(rm \<mapsto> x))\<rparr>))
      else not_found sv)"

text \<open>\<^verbatim>\<open>service\<close>: the route without a selector.\<close>

definition service :: "world \<Rightarrow> string \<Rightarrow> string \<Rightarrow> server \<Rightarrow> response \<times> server" where
  "service w provider roomId sv = serviceWithRate w provider roomId None sv"

subsection \<open>Notions of the statements\<close>

text \<open>
  The timers of an extractor are in order when, with a positive interval, the extractor
  holds a timer and no timer it held before can still fire, and, with no positive
  interval, it has never created one.
\<close>

definition timers_ok :: "('u, 'z) extractor_scheme \<Rightarrow> bool" where
  "timers_ok s =
     (if auto_refresh_interval s > 0
      then (case timers s of [] \<Rightarrow> False | t # ts \<Rightarrow> list_all (\<lambda>x. \<not> pending x) ts)
      else (case timers s of [] \<Rightarrow> True | t # ts \<Rightarrow> False))"

text \<open>
  What \<^verbatim>\<open>_extract_real_url\<close> of DouYu and Bilibili stores for an answer of the client
  (the \<^verbatim>\<open>try\<close> and its \<^verbatim>\<open>except\<close>).
\<close>

definition stored_resolution :: "url_value option outcome \<Rightarrow> url_value option" where
  "stored_resolution r = (case r of Returns v \<Rightarrow> v | Raises \<Rightarrow> Some NoneStr)"

text \<open>The last valid resolution, when there is one, passes the validity predicate.\<close>

definition last_valid_ok :: "('u option \<Rightarrow> bool) \<Rightarrow> ('u, 'z) extractor_scheme \<Rightarrow> bool" where
  "last_valid_ok valid s =
     (case last_valid_real_url s of None \<Rightarrow> True | Some v \<Rightarrow> valid (Some v))"

text \<open>A sequence of resolution attempts, one world per attempt.\<close>

definition attempts :: "('w \<Rightarrow> 's \<Rightarrow> py_error option \<times> 's) \<Rightarrow> 'w list \<Rightarrow> 's \<Rightarrow> 's" where
  "attempts extract ws s = foldl (\<lambda>s w. snd (extract w s)) s ws"

text \<open>
  The HuYa extractor registered for a room, and the one a request for the room works
  on: the registered one, or a new one.
\<close>

definition registered_huya :: "server \<Rightarrow> string \<Rightarrow> huya_extractor option" where
  "registered_huya sv rm = (case processor_maps_huya sv of None \<Rightarrow> None | Some m \<Rightarrow> m rm)"

definition HuYa_processor :: "server \<Rightarrow> string \<Rightarrow> huya_extractor" where
  "HuYa_processor sv rm =
     (case registered_huya sv rm of
        None \<Rightarrow> HuYa_init rm (global_auto_refresh_interval sv)
      | Some x \<Rightarrow> x)"

subsection \<open>Concrete inputs\<close>

text \<open>A world in which every collaborator raises and the clock reads \<open>t\<close>.\<close>

definition offline :: "datetime \<Rightarrow> world" where
  "offline t =
     \<lparr>now_refresh = t, now_check = t, now_fetched = t,
      DouYu_client = (\<lambda>r. Raises), BiliBili_client = (\<lambda>r. Raises),
      huya_update_live_url_info = (\<lambda>r. Raises), huya_get_real_url = (\<lambda>r b. Raises),
      requests_get = (\<lambda>u. Raises)\<rparr>"

text \<open>A world in which the DouYu client returns the map \<open>m\<close> for every room.\<close>

definition douyu_online :: "datetime \<Rightarrow> (string \<rightharpoonup> string) \<Rightarrow> world" where
  "douyu_online t m = (offline t)\<lparr>DouYu_client := (\<lambda>r. Returns (Some (UrlDict m)))\<rparr>"

definition douyu_AB :: "string \<rightharpoonup> string" where
  "douyu_AB = [''flv'' \<mapsto> ''A'', ''900p'' \<mapsto> ''B'']"

text \<open>A DouYu extractor in the state that a resolution returning \<open>m\<close> leaves.\<close>

definition douyu_resolved :: "(string \<rightharpoonup> string) \<Rightarrow> douyu_extractor" where
  "douyu_resolved m =
     snd (DouYu_extract_real_url (douyu_online 1000 m) (RealUrlExtractor_init ''123'' 0))"

text \<open>
  A world in which the huya client knows the endpoints \<open>infos\<close> and returns the variant
  list \<open>urls\<close>, and an endpoint named \<open>n\<close>.
\<close>

definition cdn :: "string \<Rightarrow> cdn_info" where
  "cdn n = \<lparr>hls_url = ''hls-'' @ n, stream_name = ''stream-'' @ n, base_url = ''base-'' @ n\<rparr>"

definition huya_online :: "datetime \<Rightarrow> cdn_info list \<Rightarrow> string list \<Rightarrow> world" where
  "huya_online t infos urls =
     (offline t)\<lparr>huya_update_live_url_info := (\<lambda>r. Returns infos),
                 huya_get_real_url := (\<lambda>r b. Returns urls)\<rparr>"

text \<open>A HuYa extractor after its first request, served at time 1000 from one endpoint.\<close>

definition huya_served :: huya_extractor where
  "huya_served =
     snd (HuYa_get_real_url (huya_online 1000 [cdn ''a''] [''v-a'']) None (HuYa_init ''55'' 7200))"

text \<open>Three endpoints and three variant URLs, and the extractor after a first \<^verbatim>\<open>switch_cdn\<close>.\<close>

definition three_cdns :: world where
  "three_cdns = huya_online 1000 [cdn ''a'', cdn ''b'', cdn ''c''] [''v-a'', ''v-b'', ''v-c'']"

definition huya_at_0 :: huya_extractor where
  "huya_at_0 = snd (HuYa_get_real_url three_cdns (Some ''switch_cdn'') (HuYa_init ''55'' 7200))"

text \<open>
  Huya worlds in which \<^verbatim>\<open>requests.get\<close> answers with the status \<open>code\<close>, and
  with the body \<open>body\<close> or with the URL itself as the body.
\<close>

definition huya_answering ::
  "datetime \<Rightarrow> cdn_info list \<Rightarrow> string list \<Rightarrow> int \<Rightarrow> string \<Rightarrow> world" where
  "huya_answering t infos urls code body =
     (huya_online t infos urls)\<lparr>requests_get := (\<lambda>u. Returns (code, body))\<rparr>"

definition huya_http :: "datetime \<Rightarrow> cdn_info list \<Rightarrow> string list \<Rightarrow> int \<Rightarrow> world" where
  "huya_http t infos urls code =
     (huya_online t infos urls)\<lparr>requests_get := (\<lambda>u. Returns (code, u))\<rparr>"

text \<open>A DouYu extractor with the interval 7200 after a first successful request.\<close>

definition douyu_served :: douyu_extractor where
  "douyu_served =
     snd (DouYu_get_real_url (douyu_online 1000 douyu_AB) None (RealUrlExtractor_init ''123'' 7200))"

text \<open>
  A HuYa extractor that knows one endpoint and two variant URLs, after a first
  \<^verbatim>\<open>switch_cdn\<close>, and a server on which an extractor is registered for room 55.
\<close>

definition huya_one_endpoint :: huya_extractor where
  "huya_one_endpoint =
     snd (HuYa_get_real_url (huya_http 1000 [cdn ''a''] [''v-1'', ''v-2''] 200) (Some ''switch_cdn'')
            (HuYa_init ''55'' 7200))"

definition huya_server :: "huya_extractor \<Rightarrow> server" where
  "huya_server x = (server_init 7200)\<lparr>processor_maps_huya := Some [''55'' \<mapsto> x]\<rparr>"

section \<open>Properties\<close>

subsection \<open>Python values and the fields an operation leaves alone\<close>

lemma contains_dom: "contains m k \<longleftrightarrow> k \<in> dom m"
  by (cases "m k") (auto simp: contains_def)

lemma reset_refresh_timer_fields [simp]:
  "real_url (reset_refresh_timer f s) = real_url s"
  "last_valid_real_url (reset_refresh_timer f s) = last_valid_real_url s"
  "auto_refresh_interval (reset_refresh_timer f s) = auto_refresh_interval s"
  "room (reset_refresh_timer f s) = room s"
  "last_refresh_time (reset_refresh_timer f s) = last_refresh_time s"
  "extractor.more (reset_refresh_timer f s) = extractor.more s"
  by (simp_all add: reset_refresh_timer_def Let_def)

lemma extract_real_url_real_url:
  "real_url (RealUrlExtractor_extract_real_url valid now s) =
     (if valid (real_url s) then real_url s
      else case last_valid_real_url s of None \<Rightarrow> real_url s | Some v \<Rightarrow> Some v)"
  by (simp add: RealUrlExtractor_extract_real_url_def Let_def split: option.splits)

lemma extract_real_url_last_valid:
  "last_valid_real_url (RealUrlExtractor_extract_real_url valid now s) =
     (if valid (real_url s) then real_url s else last_valid_real_url s)"
  by (simp add: RealUrlExtractor_extract_real_url_def Let_def split: option.splits)

lemma extract_real_url_fields [simp]:
  "auto_refresh_interval (RealUrlExtractor_extract_real_url valid now s) = auto_refresh_interval s"
  "room (RealUrlExtractor_extract_real_url valid now s) = room s"
  "last_refresh_time (RealUrlExtractor_extract_real_url valid now s) = now"
  "extractor.more (RealUrlExtractor_extract_real_url valid now s) = extractor.more s"
  by (simp_all add: RealUrlExtractor_extract_real_url_def Let_def split: option.splits)

subsection \<open>DouYu: the selector\<close>

lemma DouYu_is_url_valid_simps [simp]:
  "\<not> DouYu_is_url_valid None" "\<not> DouYu_is_url_valid (Some NoneStr)"
  "DouYu_is_url_valid (Some (UrlDict m))"
  by (simp_all add: DouYu_is_url_valid_def)

lemma DouYu_extract_Returns:
  "DouYu_client w (room s) = Returns v \<Longrightarrow>
   DouYu_extract_real_url w s =
     (None, RealUrlExtractor_extract_real_url DouYu_is_url_valid (now_refresh w) (s\<lparr>real_url := v\<rparr>))"
  by (simp add: DouYu_extract_real_url_def)

lemma DouYu_extract_Raises:
  "DouYu_client w (room s) = Raises \<Longrightarrow>
   DouYu_extract_real_url w s =
     (None, RealUrlExtractor_extract_real_url DouYu_is_url_valid (now_refresh w)
              (s\<lparr>real_url := Some NoneStr\<rparr>))"
  by (simp add: DouYu_extract_real_url_def)

lemma DouYu_client_online [simp]: "DouYu_client (douyu_online t m) r = Returns (Some (UrlDict m))"
  by (simp add: douyu_online_def)

lemma real_url_douyu_resolved: "real_url (douyu_resolved m) = Some (UrlDict m)"
  by (simp add: douyu_resolved_def DouYu_extract_Returns extract_real_url_real_url)

lemma DouYu_select_default:
  "bit_rate = None \<or> bit_rate = Some [] \<Longrightarrow>
   DouYu_select bit_rate (Some (UrlDict m)) =
     (if ''flv'' \<in> dom m then Inr (m ''flv'')
      else if ''2000p'' \<in> dom m then Inr (m ''2000p'')
      else (case m ''900p'' of None \<Rightarrow> Inl KeyError | Some u \<Rightarrow> Inr (Some u)))"
  by (auto simp: DouYu_select_def contains_dom py_getitem_def split: option.splits)

lemma DouYu_select_key:
  "k \<noteq> [] \<Longrightarrow> DouYu_select (Some k) (Some (UrlDict m)) = Inr (m k)"
  by (auto simp: DouYu_select_def contains_dom py_getitem_def split: option.splits)

lemma DouYu_get_real_url_cached:
  "real_url s = Some u \<Longrightarrow> bit_rate \<noteq> Some ''refresh'' \<Longrightarrow>
   DouYu_get_real_url w bit_rate s = (DouYu_select bit_rate (Some u), s)"
  by (simp add: DouYu_get_real_url_def RealUrlExtractor_get_real_url_def)

lemma DouYu_get_real_url_refresh:
  "DouYu_get_real_url w (Some ''refresh'') s =
     (DouYu_select None (real_url (snd (DouYu_extract_real_url w s))),
      snd (DouYu_extract_real_url w s))"
  by (simp add: DouYu_get_real_url_def RealUrlExtractor_get_real_url_def DouYu_extract_real_url_def)

text \<open>
  C4, as the claim states it, fails at the selector \<^verbatim>\<open>'refresh'\<close>: it is neither absent
  nor empty and it is not a key of the map \<open>{flv: A, 900p: B}\<close>, so the claim promises no
  result; the code runs the resolution again and answers with the rule of the absent
  selector, here \<open>A\<close>.
\<close>

theorem DouYu_refresh_selector_is_not_a_key:
  "real_url (douyu_resolved douyu_AB) = Some (UrlDict douyu_AB) \<and>
   douyu_AB ''refresh'' = None \<and>
   fst (DouYu_get_real_url (douyu_online 2000 douyu_AB) (Some ''refresh'') (douyu_resolved douyu_AB))
     = Inr (Some ''A'')"
  by (simp add: real_url_douyu_resolved DouYu_get_real_url_refresh DouYu_extract_Returns
      extract_real_url_real_url DouYu_select_default)
     (simp add: douyu_AB_def)

text \<open>
  C4, amended: when the current resolution is a map \<open>m\<close>, \<^verbatim>\<open>get_real_url\<close> with an
  absent or empty selector returns \<open>m[flv]\<close> if present, else \<open>m[2000p]\<close> if present, else
  \<open>m[900p]\<close> (a KeyError when that key is missing too); with any other selector \<open>k\<close>
  except \<^verbatim>\<open>'refresh'\<close> it returns \<open>m[k]\<close> when \<open>k\<close> is a key and nothing when it is not; the
  selector \<^verbatim>\<open>'refresh'\<close> runs the resolution again and then applies the rule of the
  absent selector to the resolution that results.
\<close>

theorem DouYu_get_real_url_selector:
  assumes "real_url s = Some (UrlDict m)"
  shows "(bit_rate = None \<or> bit_rate = Some [] \<longrightarrow>
            fst (DouYu_get_real_url w bit_rate s) =
              (if ''flv'' \<in> dom m then Inr (m ''flv'')
               else if ''2000p'' \<in> dom m then Inr (m ''2000p'')
               else (case m ''900p'' of None \<Rightarrow> Inl KeyError | Some u \<Rightarrow> Inr (Some u)))) \<and>
         (\<forall>k. k \<noteq> [] \<and> k \<noteq> ''refresh'' \<longrightarrow> fst (DouYu_get_real_url w (Some k) s) = Inr (m k)) \<and>
         fst (DouYu_get_real_url w (Some ''refresh'') s) =
           DouYu_select None (real_url (snd (DouYu_extract_real_url w s)))"
proof (intro conjI impI allI)
  assume b: "bit_rate = None \<or> bit_rate = Some []"
  then have "bit_rate \<noteq> Some ''refresh''" by auto
  with assms b show "fst (DouYu_get_real_url w bit_rate s) =
      (if ''flv'' \<in> dom m then Inr (m ''flv'')
       else if ''2000p'' \<in> dom m then Inr (m ''2000p'')
       else (case m ''900p'' of None \<Rightarrow> Inl KeyError | Some u \<Rightarrow> Inr (Some u)))"
    by (simp add: DouYu_get_real_url_cached DouYu_select_default)
next
  fix k :: string
  assume "k \<noteq> [] \<and> k \<noteq> ''refresh''"
  with assms show "fst (DouYu_get_real_url w (Some k) s) = Inr (m k)"
    by (simp add: DouYu_get_real_url_cached DouYu_select_key)
next
  show "fst (DouYu_get_real_url w (Some ''refresh'') s) =
      DouYu_select None (real_url (snd (DouYu_extract_real_url w s)))"
    by (simp add: DouYu_get_real_url_refresh)
qed

theorem DouYu_get_real_url_selector_witness:
  "real_url (douyu_resolved douyu_AB) = Some (UrlDict douyu_AB) \<and>
   fst (DouYu_get_real_url (offline 2000) None (douyu_resolved douyu_AB)) = Inr (Some ''A'') \<and>
   fst (DouYu_get_real_url (offline 2000) (Some ''900p'') (douyu_resolved douyu_AB)) = Inr (Some ''B'') \<and>
   fst (DouYu_get_real_url (offline 2000) (Some ''4000p'') (douyu_resolved douyu_AB)) = Inr None"
  using DouYu_get_real_url_selector
          [OF real_url_douyu_resolved, where bit_rate = None and w = "offline 2000"]
  by (simp add: real_url_douyu_resolved) (simp add: douyu_AB_def)

text \<open>
  C10: when the current resolution is a map without the keys \<open>flv\<close> and \<open>2000p\<close>,
  \<^verbatim>\<open>get_real_url\<close> with an absent or empty selector reads the key \<open>900p\<close> without a
  test: it returns \<open>m[900p]\<close>, and raises KeyError when the map lacks that key as well.
  The witness is the empty map, which is a valid resolution.
\<close>

theorem DouYu_get_real_url_900p:
  assumes "real_url s = Some (UrlDict m)"
    and "bit_rate = None \<or> bit_rate = Some []"
    and "''flv'' \<notin> dom m" and "''2000p'' \<notin> dom m"
  shows "DouYu_is_url_valid (real_url s) \<and>
         DouYu_get_real_url w bit_rate s =
           ((case m ''900p'' of None \<Rightarrow> Inl KeyError | Some u \<Rightarrow> Inr (Some u)), s)"
proof -
  have "bit_rate \<noteq> Some ''refresh''" using assms(2) by auto
  then show ?thesis
    using assms by (simp add: DouYu_get_real_url_cached DouYu_select_default)
qed

theorem DouYu_get_real_url_900p_witness:
  "real_url (douyu_resolved Map.empty) = Some (UrlDict Map.empty) \<and>
   DouYu_is_url_valid (real_url (douyu_resolved Map.empty)) \<and>
   DouYu_get_real_url (offline 2000) None (douyu_resolved Map.empty) =
     (Inl KeyError, douyu_resolved Map.empty)"
  using DouYu_get_real_url_900p
          [of "douyu_resolved Map.empty" Map.empty None "offline 2000"]
  by (simp add: real_url_douyu_resolved)

subsection \<open>The request handler\<close>

text \<open>
  C1 at the request of the claim: \<^verbatim>\<open>GET /douyu/123\<close> on a server that has just
  started, with a DouYu client that returns \<open>{flv: http://x}\<close>. The claim says a 301
  redirect to \<open>http://x\<close>; the handler answers 404, because building the extractor raises
  NameError before the client is asked.
\<close>

theorem douyu_request_is_not_found:
  "DouYu_client (douyu_online 1000 [''flv'' \<mapsto> ''http://x'']) ''123''
     = Returns (Some (UrlDict [''flv'' \<mapsto> ''http://x''])) \<and>
   fst (service (douyu_online 1000 [''flv'' \<mapsto> ''http://x'']) ''douyu'' ''123'' (server_init 7200))
     = response_text ''Not Found'' None 404"
  by (simp add: service_def serviceWithRate_def server_init_def not_found_def dict_update_def
        new_DouYuRealUrlExtractor_def)

text \<open>
  C9 at a request for a provider the server does not know: the response is the 404 with
  the body \<open>Not Found\<close>, as the claim says, but the headers passed to it are \<^verbatim>\<open>None\<close>,
  the value of \<^verbatim>\<open>crosHeaders.update(...)\<close>, so it carries no CORS header.
\<close>

theorem not_found_has_no_headers:
  "fst (service (offline 1000) ''youtube'' ''1'' (server_init 7200))
     = response_text ''Not Found'' None 404 \<and>
   headers (fst (service (offline 1000) ''youtube'' ''1'' (server_init 7200))) = None"
  by (simp add: service_def serviceWithRate_def server_init_def not_found_def dict_update_def)

subsection \<open>The refresh timer\<close>

lemma pending_simps [simp]:
  "pending (start (Timer d))" "\<not> pending (cancel t)" "\<not> pending (Timer d)"
  by (simp_all add: pending_def start_def Timer_def cancel_def)

lemma timers_ok_init: "timers_ok (RealUrlExtractor_init r ari :: 'u extractor)"
  by (simp add: timers_ok_def RealUrlExtractor_init_def)

lemma extract_real_url_timers:
  "timers (RealUrlExtractor_extract_real_url valid now s) =
   timers (reset_refresh_timer (\<not> valid (real_url s)) s)"
  by (simp add: RealUrlExtractor_extract_real_url_def reset_refresh_timer_def Let_def
           split: option.splits)

lemma reset_refresh_timer_positive:
  assumes "0 < auto_refresh_interval s" and "timers s = t # ts"
  shows "timers (reset_refresh_timer failover s) =
           start (Timer (if failover then of_int (auto_refresh_interval s) / 2
                         else of_int (auto_refresh_interval s))) # cancel t # ts"
  using assms by (simp add: reset_refresh_timer_def Let_def)

lemma reset_refresh_timer_off:
  "auto_refresh_interval s \<le> 0 \<Longrightarrow> reset_refresh_timer failover s = s"
  by (simp add: reset_refresh_timer_def)

lemma filter_pending_none: "list_all (\<lambda>x. \<not> pending x) ts \<Longrightarrow> filter pending ts = []"
  by (induction ts) auto

text \<open>
  The rescheduling step on its own: a run of the base \<^verbatim>\<open>_extract_real_url\<close> ends in
  \<^verbatim>\<open>reset_refresh_timer\<close> with the flag "this round failed". With a positive interval
  that call cancels the timer the extractor holds and starts a new one, which is then
  the only timer that can still fire; its delay is half the interval after a failed
  round and the interval after a successful one. With an interval of 0 (or less) no
  timer exists before or after.
\<close>

lemma refresh_schedules_one_timer:
  assumes "timers_ok s"
  shows "timers_ok (reset_refresh_timer failover s) \<and>
         timers (RealUrlExtractor_extract_real_url valid now s) =
           timers (reset_refresh_timer (\<not> valid (real_url s)) s) \<and>
         (0 < auto_refresh_interval s \<longrightarrow>
            timers (reset_refresh_timer failover s) =
              start (Timer (if failover then of_int (auto_refresh_interval s) / 2
                            else of_int (auto_refresh_interval s)))
              # cancel (hd (timers s)) # tl (timers s) \<and>
            filter pending (timers (reset_refresh_timer failover s)) =
              [start (Timer (if failover then of_int (auto_refresh_interval s) / 2
                             else of_int (auto_refresh_interval s)))]) \<and>
         (auto_refresh_interval s \<le> 0 \<longrightarrow> timers (reset_refresh_timer failover s) = [])"
proof (cases "0 < auto_refresh_interval s")
  case True
  with assms obtain t ts where ts: "timers s = t # ts" "list_all (\<lambda>x. \<not> pending x) ts"
    by (auto simp: timers_ok_def split: list.splits)
  have new: "timers (reset_refresh_timer failover s) =
      start (Timer (if failover then of_int (auto_refresh_interval s) / 2
                    else of_int (auto_refresh_interval s))) # cancel t # ts"
    using True ts(1) by (rule reset_refresh_timer_positive)
  have "timers_ok (reset_refresh_timer failover s)"
    using True ts(2) by (simp add: timers_ok_def new)
  moreover have "filter pending (timers (reset_refresh_timer failover s)) =
      [start (Timer (if failover then of_int (auto_refresh_interval s) / 2
                     else of_int (auto_refresh_interval s)))]"
    using ts(2) by (simp add: new filter_pending_none)
  ultimately show ?thesis
    using True new ts(1) by (simp add: extract_real_url_timers)
next
  case False
  then have off: "reset_refresh_timer failover s = s"
    by (simp add: reset_refresh_timer_off)
  from False assms have "timers s = []"
    by (auto simp: timers_ok_def split: list.splits)
  with False assms show ?thesis
    by (simp add: off extract_real_url_timers)
qed

lemma refresh_schedules_one_timer_example:
  "timers_ok (RealUrlExtractor_init ''123'' 7200 :: url_value extractor) \<and>
   timers (reset_refresh_timer True (RealUrlExtractor_init ''123'' 7200 :: url_value extractor)) =
     [\<lparr>interval = 3600, started = True, cancelled = False\<rparr>,
      \<lparr>interval = 7200, started = False, cancelled = True\<rparr>] \<and>
   timers (reset_refresh_timer False (RealUrlExtractor_init ''123'' 7200 :: url_value extractor)) =
     [\<lparr>interval = 7200, started = True, cancelled = False\<rparr>,
      \<lparr>interval = 7200, started = False, cancelled = True\<rparr>] \<and>
   timers (reset_refresh_timer True (RealUrlExtractor_init ''123'' 0 :: url_value extractor)) = []"
  using refresh_schedules_one_timer [of "RealUrlExtractor_init ''123'' 7200 :: url_value extractor" True]
        refresh_schedules_one_timer [of "RealUrlExtractor_init ''123'' 7200 :: url_value extractor" False]
        refresh_schedules_one_timer [of "RealUrlExtractor_init ''123'' 0 :: url_value extractor" True]
  by (simp add: timers_ok_init) (simp add: RealUrlExtractor_init_def start_def Timer_def cancel_def)


subsection \<open>Failover\<close>

lemma last_valid_ok_extract:
  "last_valid_ok valid s \<Longrightarrow> last_valid_ok valid (RealUrlExtractor_extract_real_url valid now s)"
  by (auto simp: last_valid_ok_def extract_real_url_last_valid split: option.splits)

lemma last_valid_ok_update [simp]:
  "last_valid_ok valid (s\<lparr>real_url := v\<rparr>) = last_valid_ok valid s"
  by (simp add: last_valid_ok_def)

lemma DouYu_extract_eq:
  "DouYu_extract_real_url w s =
     (None, RealUrlExtractor_extract_real_url DouYu_is_url_valid (now_refresh w)
              (s\<lparr>real_url := stored_resolution (DouYu_client w (room s))\<rparr>))"
  by (simp add: DouYu_extract_real_url_def stored_resolution_def split: outcome.splits)

lemma Bilibili_extract_eq:
  "Bilibili_extract_real_url w s =
     (None, RealUrlExtractor_extract_real_url Bilibili_is_url_valid (now_refresh w)
              (s\<lparr>real_url := stored_resolution (BiliBili_client w (room s))\<rparr>))"
  by (simp add: Bilibili_extract_real_url_def stored_resolution_def split: outcome.splits)

lemma HuYa_extract_last_valid_ok:
  "last_valid_ok HuYa_is_url_valid s \<Longrightarrow>
   last_valid_ok HuYa_is_url_valid (snd (HuYa_extract_real_url w s))"
  by (auto simp: HuYa_extract_real_url_def Let_def last_valid_ok_def extract_real_url_last_valid
           split: outcome.splits sum.splits option.splits)

lemma attempts_inv:
  assumes step: "\<And>w s. P s \<Longrightarrow> P (snd (extract w s))"
  shows "P s \<Longrightarrow> P (attempts extract ws s)"
  unfolding attempts_def
  by (induction ws arbitrary: s) (auto intro: step)

lemma last_valid_ok_init: "last_valid_ok valid (RealUrlExtractor_init r ari)"
  by (simp add: last_valid_ok_def RealUrlExtractor_init_def)

lemma last_valid_ok_HuYa_init: "last_valid_ok valid (HuYa_init r ari)"
  by (simp add: last_valid_ok_def HuYa_init_def RealUrlExtractor_init_def extractor.defs)

lemma DouYu_attempts_ok:
  "last_valid_ok DouYu_is_url_valid (attempts DouYu_extract_real_url ws (RealUrlExtractor_init r ari))"
  by (rule attempts_inv) (simp_all add: DouYu_extract_eq last_valid_ok_extract last_valid_ok_init)

lemma Bilibili_attempts_ok:
  "last_valid_ok Bilibili_is_url_valid (attempts Bilibili_extract_real_url ws (RealUrlExtractor_init r ari))"
  by (rule attempts_inv) (simp_all add: Bilibili_extract_eq last_valid_ok_extract last_valid_ok_init)

lemma HuYa_attempts_ok:
  "last_valid_ok HuYa_is_url_valid (attempts HuYa_extract_real_url ws (HuYa_init r ari))"
  by (rule attempts_inv) (simp_all add: HuYa_extract_last_valid_ok last_valid_ok_HuYa_init)

lemma DouYu_failover:
  assumes "last_valid_real_url s = Some v"
    and "\<not> DouYu_is_url_valid (stored_resolution (DouYu_client w (room s)))"
  shows "real_url (snd (DouYu_extract_real_url w s)) = Some v"
    and "last_valid_real_url (snd (DouYu_extract_real_url w s)) = Some v"
  using assms by (simp_all add: DouYu_extract_eq extract_real_url_real_url extract_real_url_last_valid)

lemma Bilibili_failover:
  assumes "last_valid_real_url s = Some v"
    and "\<not> Bilibili_is_url_valid (stored_resolution (BiliBili_client w (room s)))"
  shows "real_url (snd (Bilibili_extract_real_url w s)) = Some v"
    and "last_valid_real_url (snd (Bilibili_extract_real_url w s)) = Some v"
  using assms by (simp_all add: Bilibili_extract_eq extract_real_url_real_url extract_real_url_last_valid)

lemma Bilibili_get_real_url_cached:
  "real_url s = Some u \<Longrightarrow> bit_rate \<noteq> Some ''refresh'' \<Longrightarrow>
   Bilibili_get_real_url w bit_rate s = (Bilibili_select (Some u), s)"
  by (simp add: Bilibili_get_real_url_def RealUrlExtractor_get_real_url_def)

lemma Bilibili_get_real_url_refresh:
  "Bilibili_get_real_url w (Some ''refresh'') s =
     (Bilibili_select (real_url (snd (Bilibili_extract_real_url w s))),
      snd (Bilibili_extract_real_url w s))"
  by (simp add: Bilibili_get_real_url_def RealUrlExtractor_get_real_url_def Bilibili_extract_real_url_def)

lemma HuYa_failover:
  assumes "last_valid_real_url s = Some v"
    and "huya_update_live_url_info w (room s) = Returns []"
  shows "real_url (snd (HuYa_extract_real_url w s)) = Some v"
    and "last_valid_real_url (snd (HuYa_extract_real_url w s)) = Some v"
  using assms
  by (simp_all add: HuYa_extract_real_url_def extract_real_url_real_url extract_real_url_last_valid
        HuYa_is_url_valid_def)

lemma HuYa_extract_Raises:
  "huya_update_live_url_info w (room s) = Raises \<Longrightarrow>
   HuYa_extract_real_url w s = (Some ClientError, s)"
  by (simp add: HuYa_extract_real_url_def)


lemmas huya_eval =
  HuYa_get_real_url_def HuYa_select_def RealUrlExtractor_get_real_url_def HuYa_extract_real_url_def
  HuYa_init_def RealUrlExtractor_init_def extractor.defs huya_extractor.defs huya_online_def offline_def
  clamp_cdn_index_def py_index_def RealUrlExtractor_extract_real_url_def reset_refresh_timer_def
  HuYa_is_url_valid_def cdn_def datetime_min_def Let_def

lemma extract_real_url_huya_fields [simp]:
  "live_url_infos (RealUrlExtractor_extract_real_url valid now s) = live_url_infos s"
  "cdn_index (RealUrlExtractor_extract_real_url valid now s) = cdn_index s"
  "last_real_urls (RealUrlExtractor_extract_real_url valid now s) = last_real_urls s"
  "last_get_real_url_time (RealUrlExtractor_extract_real_url valid now s) = last_get_real_url_time s"
  by (simp_all add: RealUrlExtractor_extract_real_url_def reset_refresh_timer_def Let_def
        split: option.splits)

lemma huya_first:
  "HuYa_get_real_url (huya_online 1000 [cdn ''a''] [''v-a'']) None (HuYa_init ''55'' 7200) =
     (Inr (Some ''v-a''), huya_served)"
  by (simp add: huya_served_def) (simp add: huya_eval)

lemma huya_served_fields:
  "real_url huya_served = Some ''hls-a''"
  "last_valid_real_url huya_served = Some ''hls-a''"
  "last_real_urls huya_served = Some [''v-a'']"
  "last_get_real_url_time huya_served = 1000"
  "cdn_index huya_served = -1"
  "room huya_served = ''55''"
  by (simp_all add: huya_served_def huya_eval)

lemma last_valid_not_cleared:
  "last_valid_real_url s \<noteq> None \<Longrightarrow> valid None = False \<Longrightarrow>
   last_valid_real_url (RealUrlExtractor_extract_real_url valid now (s\<lparr>real_url := v\<rparr>)) \<noteq> None"
  by (cases v) (auto simp: extract_real_url_last_valid)

lemma DouYu_last_valid_not_cleared:
  "last_valid_real_url s \<noteq> None \<Longrightarrow>
   last_valid_real_url (snd (DouYu_extract_real_url w s)) \<noteq> None"
  by (simp add: DouYu_extract_eq last_valid_not_cleared)

lemma Bilibili_last_valid_not_cleared:
  "last_valid_real_url s \<noteq> None \<Longrightarrow>
   last_valid_real_url (snd (Bilibili_extract_real_url w s)) \<noteq> None"
  by (simp add: Bilibili_extract_eq last_valid_not_cleared Bilibili_is_url_valid_def)

lemma HuYa_last_valid_not_cleared:
  "last_valid_real_url s \<noteq> None \<Longrightarrow>
   last_valid_real_url (snd (HuYa_extract_real_url w s)) \<noteq> None"
  by (auto simp: HuYa_extract_real_url_def Let_def extract_real_url_last_valid
           HuYa_is_url_valid_def split: outcome.splits sum.splits)

text \<open>
  C2, as the claim states it, fails for the HuYa extractor. Its first request (one
  endpoint, one variant URL) succeeds. The next request, 1000 seconds later with the
  selector \<^verbatim>\<open>'refresh'\<close>, finds no endpoint, which is a failed resolution, and the
  client has no variant URL: \<^verbatim>\<open>get_real_url\<close> returns nothing, although
  \<^verbatim>\<open>last_valid_real_url\<close> still holds the earlier resolution.
\<close>

theorem HuYa_get_real_url_ignores_last_valid:
  "fst (HuYa_get_real_url (huya_online 1000 [cdn ''a''] [''v-a'']) None (HuYa_init ''55'' 7200))
     = Inr (Some ''v-a'') \<and>
   last_valid_real_url huya_served = Some ''hls-a'' \<and>
   fst (HuYa_get_real_url (huya_online 2000 [] []) (Some ''refresh'') huya_served) = Inr None \<and>
   last_valid_real_url (snd (HuYa_get_real_url (huya_online 2000 [] []) (Some ''refresh'') huya_served))
     = Some ''hls-a''"
  by (simp add: huya_first huya_served_fields)
     (simp add: HuYa_get_real_url_def HuYa_select_def RealUrlExtractor_get_real_url_def
        HuYa_extract_real_url_def huya_online_def offline_def huya_served_fields clamp_cdn_index_def
        extract_real_url_last_valid extract_real_url_real_url HuYa_is_url_valid_def Let_def)

text \<open>
  C2, amended: for every extractor and every sequence of resolution attempts,
  \<^verbatim>\<open>last_valid_real_url\<close> is assigned only a resolution that passes the validity
  predicate and a failed resolution leaves it as it is; after a failed resolution that
  follows a successful one, \<^verbatim>\<open>real_url\<close> is the earlier valid resolution again, and
  for DouYu and Bilibili \<^verbatim>\<open>get_real_url\<close> returns what it selects from that resolution,
  both when it forced the failed refresh itself and on later calls. (For HuYa
  \<^verbatim>\<open>get_real_url\<close> returns an entry of the variant list, whatever the last valid
  resolution is; when \<^verbatim>\<open>update_live_url_info\<close> raises, the extractor is unchanged.)
\<close>

theorem last_valid_real_url_retained:
  "last_valid_real_url (RealUrlExtractor_extract_real_url valid now s) =
     (if valid (real_url s) then real_url s else last_valid_real_url s) \<and>
   last_valid_ok DouYu_is_url_valid (attempts DouYu_extract_real_url ws (RealUrlExtractor_init r ari)) \<and>
   last_valid_ok Bilibili_is_url_valid (attempts Bilibili_extract_real_url ws (RealUrlExtractor_init r ari)) \<and>
   last_valid_ok HuYa_is_url_valid (attempts HuYa_extract_real_url ws (HuYa_init r ari)) \<and>
   (last_valid_real_url d \<noteq> None \<longrightarrow>
      last_valid_real_url (snd (DouYu_extract_real_url w d)) \<noteq> None \<and>
      last_valid_real_url (snd (Bilibili_extract_real_url w d)) \<noteq> None) \<and>
   (last_valid_real_url h \<noteq> None \<longrightarrow>
      last_valid_real_url (snd (HuYa_extract_real_url w h)) \<noteq> None) \<and>
   (last_valid_real_url d = Some v \<and>
    \<not> DouYu_is_url_valid (stored_resolution (DouYu_client w (room d))) \<longrightarrow>
      real_url (snd (DouYu_extract_real_url w d)) = Some v \<and>
      last_valid_real_url (snd (DouYu_extract_real_url w d)) = Some v \<and>
      fst (DouYu_get_real_url w (Some ''refresh'') d) = DouYu_select None (Some v) \<and>
      (bit_rate \<noteq> Some ''refresh'' \<longrightarrow>
         fst (DouYu_get_real_url w' bit_rate (snd (DouYu_extract_real_url w d)))
           = DouYu_select bit_rate (Some v))) \<and>
   (last_valid_real_url d = Some v \<and>
    \<not> Bilibili_is_url_valid (stored_resolution (BiliBili_client w (room d))) \<longrightarrow>
      real_url (snd (Bilibili_extract_real_url w d)) = Some v \<and>
      last_valid_real_url (snd (Bilibili_extract_real_url w d)) = Some v \<and>
      fst (Bilibili_get_real_url w (Some ''refresh'') d) = Bilibili_select (Some v) \<and>
      (bit_rate \<noteq> Some ''refresh'' \<longrightarrow>
         fst (Bilibili_get_real_url w' bit_rate (snd (Bilibili_extract_real_url w d)))
           = Bilibili_select (Some v))) \<and>
   (last_valid_real_url h = Some u \<and> huya_update_live_url_info w (room h) = Returns [] \<longrightarrow>
      real_url (snd (HuYa_extract_real_url w h)) = Some u \<and>
      last_valid_real_url (snd (HuYa_extract_real_url w h)) = Some u) \<and>
   (huya_update_live_url_info w (room h) = Raises \<longrightarrow> snd (HuYa_extract_real_url w h) = h)"
  by (intro conjI impI)
     (simp_all add: extract_real_url_last_valid DouYu_attempts_ok Bilibili_attempts_ok
        HuYa_attempts_ok DouYu_failover Bilibili_failover HuYa_failover HuYa_extract_Raises
        DouYu_last_valid_not_cleared Bilibili_last_valid_not_cleared HuYa_last_valid_not_cleared
        DouYu_get_real_url_refresh Bilibili_get_real_url_refresh
        DouYu_get_real_url_cached Bilibili_get_real_url_cached)

lemma last_valid_douyu_resolved: "last_valid_real_url (douyu_resolved m) = Some (UrlDict m)"
  by (simp add: douyu_resolved_def DouYu_extract_Returns extract_real_url_last_valid)

theorem last_valid_real_url_retained_witness:
  "last_valid_real_url (douyu_resolved douyu_AB) = Some (UrlDict douyu_AB) \<and>
   \<not> DouYu_is_url_valid (stored_resolution (DouYu_client (offline 2000) (room (douyu_resolved douyu_AB)))) \<and>
   real_url (snd (DouYu_extract_real_url (offline 2000) (douyu_resolved douyu_AB))) = Some (UrlDict douyu_AB) \<and>
   fst (DouYu_get_real_url (offline 2000) (Some ''refresh'') (douyu_resolved douyu_AB)) = Inr (Some ''A'') \<and>
   fst (DouYu_get_real_url (offline 3000) (Some ''900p'')
          (snd (DouYu_extract_real_url (offline 2000) (douyu_resolved douyu_AB)))) = Inr (Some ''B'')"
proof -
  have lv: "last_valid_real_url (douyu_resolved douyu_AB) = Some (UrlDict douyu_AB)"
    by (rule last_valid_douyu_resolved)
  have nv: "\<not> DouYu_is_url_valid
      (stored_resolution (DouYu_client (offline 2000) (room (douyu_resolved douyu_AB))))"
    by (simp add: stored_resolution_def offline_def)
  have sel: "DouYu_select None (Some (UrlDict douyu_AB)) = Inr (Some ''A'')"
    "DouYu_select (Some ''900p'') (Some (UrlDict douyu_AB)) = Inr (Some ''B'')"
    by (simp_all add: DouYu_select_default DouYu_select_key douyu_AB_def)
  have "real_url (snd (DouYu_extract_real_url (offline 2000) (douyu_resolved douyu_AB)))
          = Some (UrlDict douyu_AB) \<and>
        fst (DouYu_get_real_url (offline 2000) (Some ''refresh'') (douyu_resolved douyu_AB))
          = DouYu_select None (Some (UrlDict douyu_AB)) \<and>
        fst (DouYu_get_real_url (offline 3000) (Some ''900p'')
               (snd (DouYu_extract_real_url (offline 2000) (douyu_resolved douyu_AB))))
          = DouYu_select (Some ''900p'') (Some (UrlDict douyu_AB))"
    using last_valid_real_url_retained [where d = "douyu_resolved douyu_AB" and v = "UrlDict douyu_AB"
                and w = "offline 2000" and w' = "offline 3000" and bit_rate = "Some ''900p''"
                and valid = DouYu_is_url_valid and now = 0 and s = "douyu_resolved douyu_AB"
                and ws = "[]" and r = "''55''" and ari = 0 and h = "HuYa_init ''55'' 0"
                and u = "''u''"]
          lv nv
    by simp
  with lv nv show ?thesis by (simp add: sel)
qed

subsection \<open>HuYa: the index, the variant cache and the manifest\<close>

lemma clamp_cdn_index_bounds:
  "- 1 \<le> i \<Longrightarrow> - 1 \<le> clamp_cdn_index i n"
  "0 < n \<Longrightarrow> clamp_cdn_index i n < int n"
  by (simp_all add: clamp_cdn_index_def)

lemma py_index_in_range:
  assumes "- 1 \<le> i" and "i < int (length xs)" and "xs \<noteq> []"
  shows "\<exists>x. py_index xs i = Inr x" and "py_index xs i \<noteq> Inl e"
proof -
  from assms(3) have "1 \<le> int (length xs)" by (cases xs) simp_all
  with assms(1,2) show "\<exists>x. py_index xs i = Inr x" and "py_index xs i \<noteq> Inl e"
    by (auto simp: py_index_def Let_def)
qed

lemma py_index_nonneg:
  "0 \<le> i \<Longrightarrow> i < int (length xs) \<Longrightarrow> py_index xs i = Inr (xs ! nat i)"
  by (simp add: py_index_def)


lemma reset_refresh_timer_huya_fields [simp]:
  "live_url_infos (reset_refresh_timer f s) = live_url_infos s"
  "cdn_index (reset_refresh_timer f s) = cdn_index s"
  "last_real_urls (reset_refresh_timer f s) = last_real_urls s"
  "last_get_real_url_time (reset_refresh_timer f s) = last_get_real_url_time s"
  by (simp_all add: reset_refresh_timer_def Let_def)

lemma HuYa_extract_Returns:
  assumes "huya_update_live_url_info w (room s) = Returns infos" and "- 1 \<le> cdn_index s"
    and "infos \<noteq> []"
  shows "\<exists>info. py_index infos (clamp_cdn_index (cdn_index s) (length infos)) = Inr info \<and>
    HuYa_extract_real_url w s =
    (None, RealUrlExtractor_extract_real_url HuYa_is_url_valid (now_refresh w)
       (s\<lparr>live_url_infos := infos,
           cdn_index := clamp_cdn_index (cdn_index s) (length infos),
           real_url := Some (hls_url info)\<rparr>))"
proof -
  obtain info where "py_index infos (clamp_cdn_index (cdn_index s) (length infos)) = Inr info"
    using py_index_in_range(1) [of "clamp_cdn_index (cdn_index s) (length infos)" infos] assms
    by (auto simp: clamp_cdn_index_bounds)
  with assms show ?thesis by (simp add: HuYa_extract_real_url_def Let_def)
qed

lemma HuYa_extract_Returns_Nil:
  assumes "huya_update_live_url_info w (room s) = Returns []"
  shows "HuYa_extract_real_url w s =
    (None, RealUrlExtractor_extract_real_url HuYa_is_url_valid (now_refresh w)
       (s\<lparr>live_url_infos := [], cdn_index := clamp_cdn_index (cdn_index s) 0, real_url := None\<rparr>))"
  using assms by (simp add: HuYa_extract_real_url_def Let_def)

lemma HuYa_extract_cdn_index:
  assumes "- 1 \<le> cdn_index s"
  shows "- 1 \<le> cdn_index (snd (HuYa_extract_real_url w s)) \<and>
         fst (HuYa_extract_real_url w s) \<noteq> Some IndexError"
proof (cases "huya_update_live_url_info w (room s)")
  case Raises
  then show ?thesis using assms by (simp add: HuYa_extract_Raises)
next
  case (Returns infos)
  show ?thesis
  proof (cases "infos = []")
    case True
    with Returns assms show ?thesis
      by (simp add: HuYa_extract_Returns_Nil clamp_cdn_index_bounds)
  next
    case False
    from HuYa_extract_Returns [OF Returns assms False] assms show ?thesis
      by (auto simp: clamp_cdn_index_bounds)
  qed
qed

text \<open>What HuYa_select does with the list it reads.\<close>

lemma HuYa_select_cached:
  assumes "last_real_urls s = Some urls" and "now_check w - last_get_real_url_time s \<le> 120"
  shows "HuYa_select w bit_rate s =
    (let i = (if bit_rate = Some ''switch_cdn'' then cdn_index s + 1 else cdn_index s);
         j = clamp_cdn_index i (length urls)
     in if urls = [] then (Inr None, s\<lparr>cdn_index := i\<rparr>)
        else (map_sum id Some (py_index urls j), s\<lparr>cdn_index := j\<rparr>))"
  using assms by (auto simp: HuYa_select_def Let_def)

lemma HuYa_select_fetch:
  assumes "last_real_urls s = None \<or> now_check w - last_get_real_url_time s > 120"
    and "huya_get_real_url w (room s) bit_rate = Returns urls"
  shows "HuYa_select w bit_rate s =
    (let i = (if bit_rate = Some ''switch_cdn'' then cdn_index s + 1 else cdn_index s);
         j = clamp_cdn_index i (length urls);
         s2 = s\<lparr>last_real_urls := Some urls, last_get_real_url_time := now_fetched w\<rparr>
     in if urls = [] then (Inr None, s2\<lparr>cdn_index := i\<rparr>)
        else (map_sum id Some (py_index urls j), s2\<lparr>cdn_index := j\<rparr>))"
proof -
  have c: "Option.is_none (last_real_urls s) \<or> now_check w - last_get_real_url_time s > 120"
    using assms(1) by (auto simp: Option.is_none_def)
  with assms(2) show ?thesis by (auto simp: HuYa_select_def Let_def)
qed

lemma HuYa_select_Raises:
  assumes "last_real_urls s = None \<or> now_check w - last_get_real_url_time s > 120"
    and "huya_get_real_url w (room s) bit_rate = Raises"
  shows "HuYa_select w bit_rate s =
    (Inl ClientError, if bit_rate = Some ''switch_cdn'' then s\<lparr>cdn_index := cdn_index s + 1\<rparr> else s)"
proof -
  have c: "Option.is_none (last_real_urls s) \<or> now_check w - last_get_real_url_time s > 120"
    using assms(1) by (auto simp: Option.is_none_def)
  with assms(2) show ?thesis by (auto simp: HuYa_select_def Let_def)
qed

lemma HuYa_select_cdn_index:
  assumes "- 1 \<le> cdn_index s"
  shows "- 1 \<le> cdn_index (snd (HuYa_select w bit_rate s)) \<and>
         fst (HuYa_select w bit_rate s) \<noteq> Inl IndexError"
proof -
  define i where "i = (if bit_rate = Some ''switch_cdn'' then cdn_index s + 1 else cdn_index s)"
  have i: "- 1 \<le> i" using assms by (simp add: i_def)
  have ok: "urls \<noteq> [] \<Longrightarrow>
      map_sum id Some (py_index urls (clamp_cdn_index i (length urls))) \<noteq> Inl IndexError" for urls :: "string list"
    using py_index_in_range(1) [of "clamp_cdn_index i (length urls)" urls] i
    by (auto simp: clamp_cdn_index_bounds)
  show ?thesis
  proof (cases "last_real_urls s = None \<or> now_check w - last_get_real_url_time s > 120")
    case True
    show ?thesis
    proof (cases "huya_get_real_url w (room s) bit_rate")
      case Raises
      with True assms show ?thesis by (simp add: HuYa_select_Raises)
    next
      case (Returns urls)
      with True i ok [of urls] show ?thesis
        by (simp add: HuYa_select_fetch Let_def clamp_cdn_index_bounds flip: i_def)
    qed
  next
    case False
    then obtain urls where "last_real_urls s = Some urls" "now_check w - last_get_real_url_time s \<le> 120"
      by auto
    with i ok [of urls] show ?thesis
      by (simp add: HuYa_select_cached Let_def clamp_cdn_index_bounds flip: i_def)
  qed
qed

lemma HuYa_get_real_url_cdn_index:
  assumes "- 1 \<le> cdn_index s"
  shows "- 1 \<le> cdn_index (snd (HuYa_get_real_url w bit_rate s)) \<and>
         fst (HuYa_get_real_url w bit_rate s) \<noteq> Inl IndexError"
proof (cases "Option.is_none (real_url s) \<or> bit_rate = Some ''refresh''")
  case True
  then have r: "RealUrlExtractor_get_real_url (HuYa_extract_real_url w) bit_rate s =
      HuYa_extract_real_url w s"
    by (simp add: RealUrlExtractor_get_real_url_def)
  obtain e s' where es: "HuYa_extract_real_url w s = (e, s')" by (cases "HuYa_extract_real_url w s")
  with HuYa_extract_cdn_index [OF assms, of w] have s': "- 1 \<le> cdn_index s'" "e \<noteq> Some IndexError"
    by simp_all
  show ?thesis
  proof (cases e)
    case None
    with r es HuYa_select_cdn_index [OF s'(1)] show ?thesis
      by (simp add: HuYa_get_real_url_def)
  next
    case (Some a)
    with r es s' show ?thesis by (simp add: HuYa_get_real_url_def)
  qed
next
  case False
  then have "RealUrlExtractor_get_real_url (HuYa_extract_real_url w) bit_rate s = (None, s)"
    by (simp add: RealUrlExtractor_get_real_url_def)
  with HuYa_select_cdn_index [OF assms] show ?thesis
    by (simp add: HuYa_get_real_url_def)
qed

lemmas three_cdns_eval = three_cdns_def huya_eval

text \<open>
  C3, as the claim states it, fails on a new HuYa extractor: \<^verbatim>\<open>cdn_index\<close> starts at
  \<open>-1\<close>, the test \<^verbatim>\<open>cdn_index >= cdn_count\<close> lets it through, and both lists are read at
  index \<open>-1\<close>, which in Python is the last entry. With three endpoints and three variant
  URLs the first request resolves the third endpoint and returns the third variant URL,
  and the index is still \<open>-1\<close> afterwards.
\<close>

theorem HuYa_first_read_at_index_minus_one:
  "cdn_index (HuYa_init ''55'' 7200) = - 1 \<and>
   real_url (snd (HuYa_extract_real_url three_cdns (HuYa_init ''55'' 7200))) = Some ''hls-c'' \<and>
   cdn_index (snd (HuYa_extract_real_url three_cdns (HuYa_init ''55'' 7200))) = - 1 \<and>
   fst (HuYa_get_real_url three_cdns None (HuYa_init ''55'' 7200)) = Inr (Some ''v-c'') \<and>
   cdn_index (snd (HuYa_get_real_url three_cdns None (HuYa_init ''55'' 7200))) = - 1"
  by (simp add: three_cdns_eval)

lemma HuYa_get_real_url_no_refresh:
  "real_url s = Some r \<Longrightarrow> bit_rate \<noteq> Some ''refresh'' \<Longrightarrow>
   HuYa_get_real_url w bit_rate s = HuYa_select w bit_rate s"
  by (simp add: HuYa_get_real_url_def RealUrlExtractor_get_real_url_def)

lemma switch_cdn_step:
  assumes "real_url s = Some r" and "last_real_urls s = Some urls"
    and "now_check w - last_get_real_url_time s \<le> 120"
    and "urls \<noteq> []" and "- 1 \<le> cdn_index s" and "cdn_index s < int (length urls)"
  shows "HuYa_get_real_url w (Some ''switch_cdn'') s =
    (Inr (Some (urls ! nat ((cdn_index s + 1) mod int (length urls)))),
     s\<lparr>cdn_index := (cdn_index s + 1) mod int (length urls)\<rparr>)"
proof -
  have j: "clamp_cdn_index (cdn_index s + 1) (length urls) = (cdn_index s + 1) mod int (length urls)"
  proof (cases "cdn_index s + 1 = int (length urls)")
    case True
    then show ?thesis by (simp add: clamp_cdn_index_def)
  next
    case False
    with assms(5,6) show ?thesis by (simp add: clamp_cdn_index_def)
  qed
  have "0 \<le> (cdn_index s + 1) mod int (length urls)"
    "(cdn_index s + 1) mod int (length urls) < int (length urls)"
    using assms(4) by simp_all
  then have "py_index urls ((cdn_index s + 1) mod int (length urls)) =
      Inr (urls ! nat ((cdn_index s + 1) mod int (length urls)))"
    by (rule py_index_nonneg)
  with assms j show ?thesis
    by (simp add: HuYa_get_real_url_no_refresh HuYa_select_cached Let_def)
qed

lemma HuYa_select_result:
  assumes "- 1 \<le> cdn_index s" and "HuYa_select w bit_rate s = (Inr (Some u), s')"
  shows "\<exists>urls. last_real_urls s' = Some urls \<and> cdn_index s' < int (length urls) \<and>
           py_index urls (cdn_index s') = Inr u"
proof -
  define i where "i = (if bit_rate = Some ''switch_cdn'' then cdn_index s + 1 else cdn_index s)"
  have i: "- 1 \<le> i" using assms(1) by (simp add: i_def)
  show ?thesis
  proof (cases "last_real_urls s = None \<or> now_check w - last_get_real_url_time s > 120")
    case True
    show ?thesis
    proof (cases "huya_get_real_url w (room s) bit_rate")
      case Raises
      with True assms(2) show ?thesis by (simp add: HuYa_select_Raises)
    next
      case (Returns urls)
      show ?thesis
      proof (cases "urls = []")
        case True
        with \<open>last_real_urls s = None \<or> _\<close> Returns assms(2) show ?thesis
          by (simp add: HuYa_select_fetch Let_def)
      next
        case False
        with True Returns assms(2) show ?thesis
          by (auto simp: HuYa_select_fetch Let_def clamp_cdn_index_bounds map_sum_def
                split: sum.splits)
      qed
    qed
  next
    case False
    then obtain urls where c: "last_real_urls s = Some urls"
      "now_check w - last_get_real_url_time s \<le> 120"
      by auto
    show ?thesis
    proof (cases "urls = []")
      case True
      with c assms(2) show ?thesis by (simp add: HuYa_select_cached Let_def)
    next
      case False
      with c assms(2) show ?thesis
        by (auto simp: HuYa_select_cached Let_def clamp_cdn_index_bounds map_sum_def
              split: sum.splits)
    qed
  qed
qed

lemma HuYa_get_real_url_result:
  assumes "- 1 \<le> cdn_index s" and "fst (HuYa_get_real_url w bit_rate s) = Inr (Some u)"
  shows "\<exists>urls. last_real_urls (snd (HuYa_get_real_url w bit_rate s)) = Some urls \<and>
           cdn_index (snd (HuYa_get_real_url w bit_rate s)) < int (length urls) \<and>
           py_index urls (cdn_index (snd (HuYa_get_real_url w bit_rate s))) = Inr u"
proof -
  obtain e s1 where r: "RealUrlExtractor_get_real_url (HuYa_extract_real_url w) bit_rate s = (e, s1)"
    by (cases "RealUrlExtractor_get_real_url (HuYa_extract_real_url w) bit_rate s")
  have s1: "- 1 \<le> cdn_index s1"
    using r HuYa_extract_cdn_index [OF assms(1), of w] assms(1)
    by (auto simp: RealUrlExtractor_get_real_url_def split: if_splits)
  from r assms(2) have e: "e = None"
    by (cases e) (simp_all add: HuYa_get_real_url_def)
  define b where "b = (if bit_rate = Some ''refresh'' then None else bit_rate)"
  have g: "HuYa_get_real_url w bit_rate s = HuYa_select w b s1"
    using r e by (simp add: HuYa_get_real_url_def b_def)
  obtain s' where "HuYa_select w b s1 = (Inr (Some u), s')"
    using assms(2) g by (cases "HuYa_select w b s1") simp
  with HuYa_select_result [OF s1 this] g show ?thesis by simp
qed

lemma HuYa_extract_clamped:
  assumes "huya_update_live_url_info w (room s) = Returns infos" and "infos \<noteq> []"
    and "- 1 \<le> cdn_index s"
  shows "cdn_index (snd (HuYa_extract_real_url w s)) =
           (if int (length infos) \<le> cdn_index s then 0 else cdn_index s) \<and>
         cdn_index (snd (HuYa_extract_real_url w s)) < int (length infos)"
  using HuYa_extract_Returns [OF assms(1,3,2)] assms(2)
  by (auto simp: clamp_cdn_index_def)

text \<open>
  C3, amended: \<^verbatim>\<open>cdn_index\<close> is never below \<open>-1\<close>, its initial value. Before
  \<^verbatim>\<open>_extract_real_url\<close> reads the endpoint list and before \<^verbatim>\<open>get_real_url\<close> reads the
  variant list, an index at or beyond the length of that list is reset to 0, so the
  index read lies in \<open>[-1, length)\<close> and the read never raises IndexError (index \<open>-1\<close>
  reads the last entry). Under repeated \<^verbatim>\<open>switch_cdn\<close> selectors on a cached variant list
  the index goes up by one and wraps modulo the length of the variant list: with three
  entries 0, 1, 2, 0. (The reads in \<^verbatim>\<open>base_url\<close> and \<^verbatim>\<open>stream_name\<close> are not part of
  the statement.)
\<close>

theorem cdn_index_within_bounds:
  assumes "- 1 \<le> cdn_index s"
  shows "- 1 \<le> cdn_index (snd (HuYa_extract_real_url w s)) \<and>
         fst (HuYa_extract_real_url w s) \<noteq> Some IndexError \<and>
         - 1 \<le> cdn_index (snd (HuYa_get_real_url w bit_rate s)) \<and>
         fst (HuYa_get_real_url w bit_rate s) \<noteq> Inl IndexError \<and>
         (huya_update_live_url_info w (room s) = Returns infos \<and> infos \<noteq> [] \<longrightarrow>
            cdn_index (snd (HuYa_extract_real_url w s)) =
              (if int (length infos) \<le> cdn_index s then 0 else cdn_index s) \<and>
            cdn_index (snd (HuYa_extract_real_url w s)) < int (length infos)) \<and>
         (fst (HuYa_get_real_url w bit_rate s) = Inr (Some u) \<longrightarrow>
            (\<exists>urls. last_real_urls (snd (HuYa_get_real_url w bit_rate s)) = Some urls \<and>
               cdn_index (snd (HuYa_get_real_url w bit_rate s)) < int (length urls) \<and>
               py_index urls (cdn_index (snd (HuYa_get_real_url w bit_rate s))) = Inr u)) \<and>
         (real_url s \<noteq> None \<and> last_real_urls s = Some urls \<and>
          now_check w - last_get_real_url_time s \<le> 120 \<and> urls \<noteq> [] \<and>
          cdn_index s < int (length urls) \<longrightarrow>
            HuYa_get_real_url w (Some ''switch_cdn'') s =
              (Inr (Some (urls ! nat ((cdn_index s + 1) mod int (length urls)))),
               s\<lparr>cdn_index := (cdn_index s + 1) mod int (length urls)\<rparr>))"
  using assms HuYa_extract_cdn_index [OF assms, of w] HuYa_get_real_url_cdn_index [OF assms, of w bit_rate]
  by (auto simp: HuYa_extract_clamped HuYa_get_real_url_result switch_cdn_step)

lemma huya_at_0_fields:
  "real_url huya_at_0 = Some ''hls-c''"
  "last_real_urls huya_at_0 = Some [''v-a'', ''v-b'', ''v-c'']"
  "last_get_real_url_time huya_at_0 = 1000"
  "cdn_index huya_at_0 = 0"
  by (simp_all add: huya_at_0_def three_cdns_eval)

lemma now_check_three_cdns [simp]: "now_check three_cdns = 1000"
  by (simp add: three_cdns_def huya_online_def offline_def)

theorem cdn_index_within_bounds_witness:
  "- 1 \<le> cdn_index huya_at_0 \<and> cdn_index huya_at_0 = 0 \<and>
   HuYa_get_real_url three_cdns (Some ''switch_cdn'') huya_at_0
     = (Inr (Some ''v-b''), huya_at_0\<lparr>cdn_index := 1\<rparr>) \<and>
   HuYa_get_real_url three_cdns (Some ''switch_cdn'') (huya_at_0\<lparr>cdn_index := 1\<rparr>)
     = (Inr (Some ''v-c''), huya_at_0\<lparr>cdn_index := 2\<rparr>) \<and>
   HuYa_get_real_url three_cdns (Some ''switch_cdn'') (huya_at_0\<lparr>cdn_index := 2\<rparr>)
     = (Inr (Some ''v-a''), huya_at_0\<lparr>cdn_index := 0\<rparr>)"
  using cdn_index_within_bounds [where s = huya_at_0 and w = three_cdns and urls = "[''v-a'', ''v-b'', ''v-c'']"
              and bit_rate = None and infos = "[]" and u = "''u''"]
        cdn_index_within_bounds [where s = "huya_at_0\<lparr>cdn_index := 1\<rparr>" and w = three_cdns
              and urls = "[''v-a'', ''v-b'', ''v-c'']"
              and bit_rate = None and infos = "[]" and u = "''u''"]
        cdn_index_within_bounds [where s = "huya_at_0\<lparr>cdn_index := 2\<rparr>" and w = three_cdns
              and urls = "[''v-a'', ''v-b'', ''v-c'']"
              and bit_rate = None and infos = "[]" and u = "''u''"]
  by (simp add: huya_at_0_fields)

lemma timers_huya_served:
  "timers huya_served = [start (Timer 7200), cancel (Timer 7200)]"
  by (simp add: huya_served_def huya_eval start_def Timer_def cancel_def)

lemma timers_douyu_failed_refresh:
  "timers (refresh_real_url (DouYu_extract_real_url (offline 9000)) douyu_served) =
     [start (Timer 3600), cancel (start (Timer 7200)), cancel (Timer 7200)]"
  by (simp add: douyu_served_def refresh_real_url_def DouYu_get_real_url_def
      RealUrlExtractor_get_real_url_def DouYu_extract_real_url_def douyu_online_def offline_def
      RealUrlExtractor_extract_real_url_def reset_refresh_timer_def RealUrlExtractor_init_def Let_def
      start_def Timer_def cancel_def)

text \<open>
  C8 on a HuYa extractor whose client cannot reach the provider, so that
  \<^verbatim>\<open>update_live_url_info()\<close> raises. Run by the timer, \<^verbatim>\<open>refresh_real_url\<close> swallows
  the exception and leaves the extractor exactly as it was: the round is not recorded as
  a failed resolution and no new Timer is created, so the timer that has just fired was
  the last one. Forced by \<^verbatim>\<open>get_real_url\<close> (selector \<^verbatim>\<open>'refresh'\<close>, or no resolution
  yet), the exception leaves \<^verbatim>\<open>get_real_url\<close>. The claim says neither happens. For
  comparison, the DouYu extractor in the same situation starts a new Timer at half the
  interval.
\<close>

theorem HuYa_refresh_error_escapes:
  "refresh_real_url (HuYa_extract_real_url (offline 9000)) huya_served = huya_served \<and>
   fst (HuYa_get_real_url (offline 9000) (Some ''refresh'') huya_served) = Inl ClientError \<and>
   fst (HuYa_get_real_url (offline 1000) None (HuYa_init ''55'' 7200)) = Inl ClientError \<and>
   timers huya_served = [start (Timer 7200), cancel (Timer 7200)] \<and>
   timers (refresh_real_url (DouYu_extract_real_url (offline 9000)) douyu_served) =
     [start (Timer 3600), cancel (start (Timer 7200)), cancel (Timer 7200)]"
proof (intro conjI)
  have raises: "huya_update_live_url_info (offline t) r = Raises" for t r
    by (simp add: offline_def)
  show "refresh_real_url (HuYa_extract_real_url (offline 9000)) huya_served = huya_served"
    by (simp add: refresh_real_url_def HuYa_extract_Raises raises)
  show "fst (HuYa_get_real_url (offline 9000) (Some ''refresh'') huya_served) = Inl ClientError"
    by (simp add: HuYa_get_real_url_def RealUrlExtractor_get_real_url_def HuYa_extract_Raises raises)
  show "fst (HuYa_get_real_url (offline 1000) None (HuYa_init ''55'' 7200)) = Inl ClientError"
    by (simp add: HuYa_get_real_url_def RealUrlExtractor_get_real_url_def HuYa_extract_Raises raises
        HuYa_init_def RealUrlExtractor_init_def extractor.defs)
qed (rule timers_huya_served timers_douyu_failed_refresh)+

lemma timers_ok_huya_served: "timers_ok huya_served"
  by (simp add: timers_ok_def timers_huya_served huya_served_def huya_eval)

lemma auto_refresh_interval_huya_served: "auto_refresh_interval huya_served = 7200"
  by (simp add: huya_served_def huya_eval)

text \<open>
  C5 on a refresh of a HuYa extractor (interval 7200, timers in order) in which
  \<^verbatim>\<open>update_live_url_info()\<close> raises. The round failed, so the claim says the timer the
  extractor holds is cancelled and one timer is started at 3600, which is what
  \<^verbatim>\<open>reset_refresh_timer\<close> would do if it were reached. The refresh raises before it
  reaches that call: after it the timers are the ones before it, the held timer not
  cancelled and no timer started.
\<close>

theorem HuYa_failed_refresh_schedules_nothing:
  "auto_refresh_interval huya_served = 7200 \<and>
   timers_ok huya_served \<and>
   huya_update_live_url_info (offline 9000) (room huya_served) = Raises \<and>
   timers huya_served = [start (Timer 7200), cancel (Timer 7200)] \<and>
   timers (refresh_real_url (HuYa_extract_real_url (offline 9000)) huya_served)
     = [start (Timer 7200), cancel (Timer 7200)] \<and>
   timers (reset_refresh_timer True huya_served)
     = [start (Timer 3600), cancel (start (Timer 7200)), cancel (Timer 7200)]"
proof (intro conjI)
  have raises: "huya_update_live_url_info (offline 9000) (room huya_served) = Raises"
    by (simp add: offline_def)
  show "huya_update_live_url_info (offline 9000) (room huya_served) = Raises"
    by (rule raises)
  show "timers (refresh_real_url (HuYa_extract_real_url (offline 9000)) huya_served)
      = [start (Timer 7200), cancel (Timer 7200)]"
    by (simp add: refresh_real_url_def HuYa_extract_Raises [OF raises] timers_huya_served)
  show "timers (reset_refresh_timer True huya_served)
      = [start (Timer 3600), cancel (start (Timer 7200)), cancel (Timer 7200)]"
    by (simp add: reset_refresh_timer_def auto_refresh_interval_huya_served timers_huya_served)
qed (rule auto_refresh_interval_huya_served timers_ok_huya_served timers_huya_served)+

lemma HuYa_extract_cache_fields:
  "last_real_urls (snd (HuYa_extract_real_url w s)) = last_real_urls s"
  "last_get_real_url_time (snd (HuYa_extract_real_url w s)) = last_get_real_url_time s"
  "room (snd (HuYa_extract_real_url w s)) = room s"
  by (auto simp: HuYa_extract_real_url_def Let_def split: outcome.splits sum.splits)

lemma refresh_cache_fields:
  "last_real_urls (snd (RealUrlExtractor_get_real_url (HuYa_extract_real_url w) b s)) = last_real_urls s"
  "last_get_real_url_time (snd (RealUrlExtractor_get_real_url (HuYa_extract_real_url w) b s))
     = last_get_real_url_time s"
  "room (snd (RealUrlExtractor_get_real_url (HuYa_extract_real_url w) b s)) = room s"
  by (simp_all add: RealUrlExtractor_get_real_url_def HuYa_extract_cache_fields)



lemma HuYa_get_real_url_fetches:
  assumes "last_real_urls s = None \<or> now_check w - last_get_real_url_time s > 120"
    and "fst (RealUrlExtractor_get_real_url (HuYa_extract_real_url w) bit_rate s) = None"
    and "huya_get_real_url w (room s) (if bit_rate = Some ''refresh'' then None else bit_rate)
           = Returns fresh"
  shows "last_real_urls (snd (HuYa_get_real_url w bit_rate s)) = Some fresh"
    and "last_get_real_url_time (snd (HuYa_get_real_url w bit_rate s)) = now_fetched w"
proof -
  obtain s1 where r: "RealUrlExtractor_get_real_url (HuYa_extract_real_url w) bit_rate s = (None, s1)"
    using assms(2) by (cases "RealUrlExtractor_get_real_url (HuYa_extract_real_url w) bit_rate s") simp
  define b where "b = (if bit_rate = Some ''refresh'' then None else bit_rate)"
  have s1: "last_real_urls s1 = None \<or> now_check w - last_get_real_url_time s1 > 120"
    "huya_get_real_url w (room s1) b = Returns fresh"
    using refresh_cache_fields [of w bit_rate s] r assms(1,3) by (simp_all add: b_def)
  have g: "HuYa_get_real_url w bit_rate s = HuYa_select w b s1"
    using r by (simp add: HuYa_get_real_url_def b_def)
  show "last_real_urls (snd (HuYa_get_real_url w bit_rate s)) = Some fresh"
    by (simp add: g HuYa_select_fetch [OF s1] Let_def)
  show "last_get_real_url_time (snd (HuYa_get_real_url w bit_rate s)) = now_fetched w"
    by (simp add: g HuYa_select_fetch [OF s1] Let_def)
qed


lemma huya_online_fields [simp]:
  "now_check (huya_online t infos urls) = t"
  "now_fetched (huya_online t infos urls) = t"
  "now_refresh (huya_online t infos urls) = t"
  "huya_get_real_url (huya_online t infos urls) r b = Returns urls"
  "huya_update_live_url_info (huya_online t infos urls) r = Returns infos"
  "requests_get (huya_online t infos urls) u = Raises"
  by (simp_all add: huya_online_def offline_def)

lemma huya_http_fields [simp]:
  "now_check (huya_http t infos urls c) = t"
  "now_fetched (huya_http t infos urls c) = t"
  "now_refresh (huya_http t infos urls c) = t"
  "huya_get_real_url (huya_http t infos urls c) r b = Returns urls"
  "huya_update_live_url_info (huya_http t infos urls c) r = Returns infos"
  "requests_get (huya_http t infos urls c) u = Returns (c, u)"
  by (simp_all add: huya_http_def)


lemma registered_huya_init [simp]: "registered_huya (server_init ari) rm = None"
  by (simp add: registered_huya_def server_init_def)

lemma serviceWithRate_huya:
  assumes "HuYa_get_real_url w bit_rate (HuYa_processor sv rm) = (Inr (Some url), x)"
  shows "serviceWithRate w ''huya'' rm bit_rate sv =
    (let (status_code, m3u8_content, x1) =
           (case requests_get w url of
              Raises \<Rightarrow> (200, fallback_manifest url, x\<lparr>cdn_index := cdn_index x + 1\<rparr>)
            | Returns (code, txt) \<Rightarrow>
                (case HuYa_base_url x of
                   Inl e \<Rightarrow> (code, fallback_manifest url, x\<lparr>cdn_index := cdn_index x + 1\<rparr>)
                 | Inr b \<Rightarrow> (code, re_sub_ts b txt, x)));
         x2 = (if status_code = 403 then reset_last_get_real_url_time x1 else x1)
     in (response_text m3u8_content None status_code,
         sv\<lparr>processor_maps_huya :=
               Some ((case processor_maps_huya sv of None \<Rightarrow> Map.empty | Some m \<Rightarrow> m)(rm \<mapsto> x2)),
            crosHeaders := crosHeaders sv ++
              [''Content-type'' \<mapsto> ''application/vnd.apple.mpegurl'',
               ''Content-Length'' \<mapsto> str_nat (length m3u8_content)]\<rparr>))"
proof -
  have p: "HuYa_processor sv rm =
      (case (case processor_maps_huya sv of None \<Rightarrow> Map.empty | Some m \<Rightarrow> m) rm of
         None \<Rightarrow> HuYa_init rm (global_auto_refresh_interval sv) | Some x \<Rightarrow> x)"
    by (simp add: HuYa_processor_def registered_huya_def split: option.splits)
  show ?thesis
    using assms unfolding p
    by (simp add: serviceWithRate_def Let_def dict_update_def split: outcome.splits prod.splits sum.splits)
qed

lemma registered_huya_serviceWithRate:
  assumes "HuYa_get_real_url w bit_rate (HuYa_processor sv rm) = (Inr (Some url), x)"
  shows "registered_huya (snd (serviceWithRate w ''huya'' rm bit_rate sv)) rm =
    Some (case requests_get w url of
            Raises \<Rightarrow> x\<lparr>cdn_index := cdn_index x + 1\<rparr>
          | Returns (code, txt) \<Rightarrow>
              (let x1 = (case HuYa_base_url x of
                           Inl e \<Rightarrow> x\<lparr>cdn_index := cdn_index x + 1\<rparr> | Inr b \<Rightarrow> x)
               in if code = 403 then reset_last_get_real_url_time x1 else x1))"
  by (simp add: serviceWithRate_huya [OF assms] registered_huya_def Let_def
        split: outcome.splits prod.splits sum.splits)

lemma response_serviceWithRate_huya:
  assumes "HuYa_get_real_url w bit_rate (HuYa_processor sv rm) = (Inr (Some url), x)"
  shows "fst (serviceWithRate w ''huya'' rm bit_rate sv) =
    (case requests_get w url of
       Raises \<Rightarrow> response_text (fallback_manifest url) None 200
     | Returns (code, txt) \<Rightarrow>
         (case HuYa_base_url x of
            Inl e \<Rightarrow> response_text (fallback_manifest url) None code
          | Inr b \<Rightarrow> response_text (re_sub_ts b txt) None code))"
  by (simp add: serviceWithRate_huya [OF assms] Let_def
        split: outcome.splits prod.splits sum.splits)

lemma reset_fields [simp]:
  "last_get_real_url_time (reset_last_get_real_url_time s) = datetime_min"
  "last_real_urls (reset_last_get_real_url_time s) = last_real_urls s"
  "cdn_index (reset_last_get_real_url_time s) = cdn_index s"
  "room (reset_last_get_real_url_time s) = room s"
  "real_url (reset_last_get_real_url_time s) = real_url s"
  by (simp_all add: reset_last_get_real_url_time_def)

text \<open>
  C7, as the claim states it, fails for a result that is not 2xx. The manifest fetch of
  the first request for the room returns the status 500 with the body
  \<open>Internal Server Error\<close>. The claim counts that among the failures and promises the
  synthesized manifest and an index that went up; the handler serves the body it got
  with the status 500, and the index of the registered extractor is \<open>-1\<close> as before.
\<close>

theorem non_2xx_manifest_is_served:
  "requests_get (huya_answering 1000 [cdn ''a''] [''v-a''] 500 ''Internal Server Error'') ''v-a''
     = Returns (500, ''Internal Server Error'') \<and>
   fst (serviceWithRate (huya_answering 1000 [cdn ''a''] [''v-a''] 500 ''Internal Server Error'')
          ''huya'' ''55'' None (server_init 7200))
     = response_text ''Internal Server Error'' None 500 \<and>
   registered_huya
     (snd (serviceWithRate (huya_answering 1000 [cdn ''a''] [''v-a''] 500 ''Internal Server Error'')
             ''huya'' ''55'' None (server_init 7200)))
     ''55'' = Some huya_served \<and>
   cdn_index huya_served = - 1"
proof -
  let ?w = "huya_answering 1000 [cdn ''a''] [''v-a''] 500 ''Internal Server Error''"
  have r: "requests_get ?w ''v-a'' = Returns (500, ''Internal Server Error'')"
    by (simp add: huya_answering_def)
  have g: "HuYa_get_real_url ?w None (HuYa_processor (server_init 7200) ''55'')
      = (Inr (Some ''v-a''), huya_served)"
    by (simp add: HuYa_processor_def) (simp add: huya_served_def huya_answering_def huya_eval server_init_def)
  have b: "HuYa_base_url huya_served = Inr ''base-a''"
    by (simp add: HuYa_base_url_def huya_served_def huya_eval)
  have body: "re_sub_ts ''base-a'' ''Internal Server Error'' = ''Internal Server Error''"
    by (simp add: re_sub_ts_def)
  have "fst (serviceWithRate ?w ''huya'' ''55'' None (server_init 7200))
      = response_text ''Internal Server Error'' None 500"
    by (simp add: response_serviceWithRate_huya [OF g] r b body)
  moreover have "registered_huya (snd (serviceWithRate ?w ''huya'' ''55'' None (server_init 7200))) ''55''
      = Some huya_served"
    by (simp add: registered_huya_serviceWithRate [OF g] r b)
  ultimately show ?thesis
    using r by (simp add: huya_served_fields)
qed

text \<open>
  C7, amended: a request for a HuYa room whose \<^verbatim>\<open>get_real_url\<close> returned the manifest
  URL \<open>url\<close>. When the fetch of the manifest raises (a network error or a timeout of
  \<^verbatim>\<open>requests.get\<close>, or an exception of \<^verbatim>\<open>base_url()\<close> after the fetch), the body of the
  response is the three lines \<open>#EXTM3U\<close>, \<open>#EXT-X-STREAM-INF:PROGRAM-ID=1,BANDWIDTH=1\<close>
  and \<open>url\<close> as it is, and the
  \<^verbatim>\<open>cdn_index\<close> of the registered extractor has gone up by one. When the fetch returns
  the status 403, \<^verbatim>\<open>last_get_real_url_time\<close> of the registered extractor is
  \<^verbatim>\<open>datetime.min\<close>, so that the next \<^verbatim>\<open>get_real_url\<close>, at any time later than 120
  seconds after \<^verbatim>\<open>datetime.min\<close>, takes the variant list from the client and not
  from the cache. A response that \<^verbatim>\<open>requests.get\<close> returns, whatever its status, is
  not a failure at this layer: its rewritten body is served with its status and the index
  stays.
\<close>

theorem manifest_fetch_failure:
  assumes "HuYa_get_real_url w bit_rate (HuYa_processor sv rm) = (Inr (Some url), x)"
  shows "(requests_get w url = Raises \<longrightarrow>
            fst (serviceWithRate w ''huya'' rm bit_rate sv)
              = response_text (''#EXTM3U'' @ [CHR 0x0A] @ ''#EXT-X-STREAM-INF:PROGRAM-ID=1,BANDWIDTH=1'' @ [CHR 0x0A] @ url) None 200 \<and>
            registered_huya (snd (serviceWithRate w ''huya'' rm bit_rate sv)) rm
              = Some (x\<lparr>cdn_index := cdn_index x + 1\<rparr>)) \<and>
         (requests_get w url = Returns (st, content) \<and> HuYa_base_url x = Inl e \<longrightarrow>
            fst (serviceWithRate w ''huya'' rm bit_rate sv)
              = response_text (''#EXTM3U'' @ [CHR 0x0A] @ ''#EXT-X-STREAM-INF:PROGRAM-ID=1,BANDWIDTH=1'' @ [CHR 0x0A] @ url) None st \<and>
            (\<exists>x'. registered_huya (snd (serviceWithRate w ''huya'' rm bit_rate sv)) rm = Some x' \<and>
                  cdn_index x' = cdn_index x + 1)) \<and>
         (requests_get w url = Returns (403, content) \<longrightarrow>
            (\<exists>x'. registered_huya (snd (serviceWithRate w ''huya'' rm bit_rate sv)) rm = Some x' \<and>
                  last_get_real_url_time x' = datetime_min \<and>
                  (\<forall>w2 b fresh.
                     120 < now_check w2 - datetime_min \<and>
                     fst (RealUrlExtractor_get_real_url (HuYa_extract_real_url w2) b x') = None \<and>
                     huya_get_real_url w2 (room x') (if b = Some ''refresh'' then None else b)
                       = Returns fresh \<longrightarrow>
                     last_real_urls (snd (HuYa_get_real_url w2 b x')) = Some fresh))) \<and>
         (requests_get w url = Returns (st, content) \<and> HuYa_base_url x = Inr base \<longrightarrow>
            fst (serviceWithRate w ''huya'' rm bit_rate sv)
              = response_text (re_sub_ts base content) None st \<and>
            (\<exists>x'. registered_huya (snd (serviceWithRate w ''huya'' rm bit_rate sv)) rm = Some x' \<and>
                  cdn_index x' = cdn_index x))"
proof (intro conjI impI)
  assume "requests_get w url = Returns (st, content) \<and> HuYa_base_url x = Inr base"
  then show "fst (serviceWithRate w ''huya'' rm bit_rate sv)
      = response_text (re_sub_ts base content) None st"
    and "\<exists>x'. registered_huya (snd (serviceWithRate w ''huya'' rm bit_rate sv)) rm = Some x' \<and>
           cdn_index x' = cdn_index x"
    by (simp_all add: response_serviceWithRate_huya [OF assms]
          registered_huya_serviceWithRate [OF assms] Let_def fallback_manifest_def)
next
  assume "requests_get w url = Raises"
  then show "fst (serviceWithRate w ''huya'' rm bit_rate sv)
      = response_text (''#EXTM3U'' @ [CHR 0x0A] @ ''#EXT-X-STREAM-INF:PROGRAM-ID=1,BANDWIDTH=1'' @ [CHR 0x0A] @ url) None 200"
    and "registered_huya (snd (serviceWithRate w ''huya'' rm bit_rate sv)) rm
      = Some (x\<lparr>cdn_index := cdn_index x + 1\<rparr>)"
    by (simp_all add: response_serviceWithRate_huya [OF assms]
          registered_huya_serviceWithRate [OF assms] fallback_manifest_def)
next
  assume "requests_get w url = Returns (st, content) \<and> HuYa_base_url x = Inl e"
  then show "fst (serviceWithRate w ''huya'' rm bit_rate sv)
      = response_text (''#EXTM3U'' @ [CHR 0x0A] @ ''#EXT-X-STREAM-INF:PROGRAM-ID=1,BANDWIDTH=1'' @ [CHR 0x0A] @ url) None st"
    and "\<exists>x'. registered_huya (snd (serviceWithRate w ''huya'' rm bit_rate sv)) rm = Some x' \<and>
           cdn_index x' = cdn_index x + 1"
    by (simp_all add: response_serviceWithRate_huya [OF assms]
          registered_huya_serviceWithRate [OF assms] Let_def fallback_manifest_def)
next
  assume r: "requests_get w url = Returns (403, content)"
  define x' where "x' = reset_last_get_real_url_time
      (case HuYa_base_url x of Inl e \<Rightarrow> x\<lparr>cdn_index := cdn_index x + 1\<rparr> | Inr b \<Rightarrow> x)"
  have reg: "registered_huya (snd (serviceWithRate w ''huya'' rm bit_rate sv)) rm = Some x'"
    using r by (simp add: registered_huya_serviceWithRate [OF assms] x'_def)
  have t: "last_get_real_url_time x' = datetime_min" by (simp add: x'_def)
  have "last_real_urls (snd (HuYa_get_real_url w2 b x')) = Some fresh"
    if "120 < now_check w2 - datetime_min"
      and "fst (RealUrlExtractor_get_real_url (HuYa_extract_real_url w2) b x') = None"
      and "huya_get_real_url w2 (room x') (if b = Some ''refresh'' then None else b) = Returns fresh"
    for w2 b fresh
    using that t by (intro HuYa_get_real_url_fetches(1)) simp_all
  with reg t show "\<exists>x'. registered_huya (snd (serviceWithRate w ''huya'' rm bit_rate sv)) rm = Some x' \<and>
      last_get_real_url_time x' = datetime_min \<and>
      (\<forall>w2 b fresh.
         120 < now_check w2 - datetime_min \<and>
         fst (RealUrlExtractor_get_real_url (HuYa_extract_real_url w2) b x') = None \<and>
         huya_get_real_url w2 (room x') (if b = Some ''refresh'' then None else b) = Returns fresh \<longrightarrow>
         last_real_urls (snd (HuYa_get_real_url w2 b x')) = Some fresh)"
    by blast
qed

lemma HuYa_processor_init [simp]: "HuYa_processor (server_init ari) rm = HuYa_init rm ari"
  by (simp add: HuYa_processor_def) (simp add: server_init_def)

lemma huya_first_http:
  "HuYa_get_real_url (huya_http 1000 [cdn ''a''] [''v-a''] c) None (HuYa_init ''55'' 7200) =
     (Inr (Some ''v-a''), huya_served)"
  by (simp add: huya_served_def) (simp add: huya_http_def huya_eval)

lemma HuYa_base_url_huya_served: "HuYa_base_url huya_served = Inr ''base-a''"
  by (simp add: HuYa_base_url_def huya_served_def huya_eval)

lemma re_sub_ts_plain [simp]:
  "re_sub_ts b ''v-a'' = ''v-a''" "re_sub_ts b ''v-new'' = ''v-new''"
  by (simp_all add: re_sub_ts_def)

lemma HuYa_processor_huya_server [simp]: "HuYa_processor (huya_server x) ''55'' = x"
  by (simp add: HuYa_processor_def registered_huya_def huya_server_def)

lemma huya_one_endpoint_fields:
  "real_url huya_one_endpoint = Some ''hls-a''"
  "last_real_urls huya_one_endpoint = Some [''v-1'', ''v-2'']"
  "last_get_real_url_time huya_one_endpoint = 1000"
  "cdn_index huya_one_endpoint = 0"
  "live_url_infos huya_one_endpoint = [cdn ''a'']"
  by (simp_all add: huya_one_endpoint_def huya_http_def huya_eval)

lemma huya_one_endpoint_switch:
  "HuYa_get_real_url (huya_http 1000 [cdn ''a''] [''v-1'', ''v-2''] 200) (Some ''switch_cdn'')
     huya_one_endpoint = (Inr (Some ''v-2''), huya_one_endpoint\<lparr>cdn_index := 1\<rparr>)"
  by (simp add: switch_cdn_step [where r = "''hls-a''" and urls = "[''v-1'', ''v-2'']"]
        huya_one_endpoint_fields)

lemma huya_one_endpoint_base_url:
  "HuYa_base_url (huya_one_endpoint\<lparr>cdn_index := 1\<rparr>) = Inl IndexError"
  by (simp add: HuYa_base_url_def huya_one_endpoint_fields py_index_def)

theorem manifest_fetch_failure_witness:
  "fst (serviceWithRate (huya_online 1000 [cdn ''a''] [''v-a'']) ''huya'' ''55'' None (server_init 7200))
     = response_text (''#EXTM3U'' @ [CHR 0x0A] @ ''#EXT-X-STREAM-INF:PROGRAM-ID=1,BANDWIDTH=1'' @ [CHR 0x0A] @ ''v-a'') None 200 \<and>
   registered_huya
     (snd (serviceWithRate (huya_online 1000 [cdn ''a''] [''v-a'']) ''huya'' ''55'' None (server_init 7200)))
     ''55'' = Some (huya_served\<lparr>cdn_index := 0\<rparr>) \<and>
   fst (serviceWithRate (huya_http 1000 [cdn ''a''] [''v-1'', ''v-2''] 200) ''huya'' ''55''
          (Some ''switch_cdn'') (huya_server huya_one_endpoint))
     = response_text (''#EXTM3U'' @ [CHR 0x0A] @ ''#EXT-X-STREAM-INF:PROGRAM-ID=1,BANDWIDTH=1'' @ [CHR 0x0A] @ ''v-2'') None 200 \<and>
   registered_huya
     (snd (serviceWithRate (huya_http 1000 [cdn ''a''] [''v-a''] 403) ''huya'' ''55'' None (server_init 7200)))
     ''55'' = Some (reset_last_get_real_url_time huya_served) \<and>
   last_real_urls (snd (HuYa_get_real_url (huya_online 1001 [cdn ''a''] [''v-new'']) None
                          (reset_last_get_real_url_time huya_served))) = Some [''v-new''] \<and>
   fst (serviceWithRate (huya_http 1000 [cdn ''a''] [''v-a''] 403) ''huya'' ''55'' None (server_init 7200))
     = response_text ''v-a'' None 403"
proof -
  let ?fail = "huya_online 1000 [cdn ''a''] [''v-a'']"
  let ?two = "huya_http 1000 [cdn ''a''] [''v-1'', ''v-2''] 200"
  let ?forbidden = "huya_http 1000 [cdn ''a''] [''v-a''] 403"
  have g1: "HuYa_get_real_url ?fail None (HuYa_processor (server_init 7200) ''55'')
      = (Inr (Some ''v-a''), huya_served)"
    by (simp add: huya_first)
  have g2: "HuYa_get_real_url ?two (Some ''switch_cdn'') (HuYa_processor (huya_server huya_one_endpoint) ''55'')
      = (Inr (Some ''v-2''), huya_one_endpoint\<lparr>cdn_index := 1\<rparr>)"
    by (simp add: huya_one_endpoint_switch)
  have g3: "HuYa_get_real_url ?forbidden None (HuYa_processor (server_init 7200) ''55'')
      = (Inr (Some ''v-a''), huya_served)"
    by (simp add: huya_first_http)
  have a: "fst (serviceWithRate ?fail ''huya'' ''55'' None (server_init 7200))
        = response_text (''#EXTM3U'' @ [CHR 0x0A] @ ''#EXT-X-STREAM-INF:PROGRAM-ID=1,BANDWIDTH=1'' @ [CHR 0x0A] @ ''v-a'') None 200 \<and>
      registered_huya (snd (serviceWithRate ?fail ''huya'' ''55'' None (server_init 7200))) ''55''
        = Some (huya_served\<lparr>cdn_index := 0\<rparr>)"
    using manifest_fetch_failure [OF g1, where st = 0 and content = "[]" and e = IndexError and base = "[]"]
    by (simp add: huya_served_fields)
  have b: "fst (serviceWithRate ?two ''huya'' ''55'' (Some ''switch_cdn'') (huya_server huya_one_endpoint))
        = response_text (''#EXTM3U'' @ [CHR 0x0A] @ ''#EXT-X-STREAM-INF:PROGRAM-ID=1,BANDWIDTH=1'' @ [CHR 0x0A] @ ''v-2'') None 200"
    using manifest_fetch_failure [OF g2, where st = 200 and content = "''v-2''" and e = IndexError and base = "[]"]
    by (simp add: huya_one_endpoint_base_url)
  have reg: "registered_huya (snd (serviceWithRate ?forbidden ''huya'' ''55'' None (server_init 7200))) ''55''
        = Some (reset_last_get_real_url_time huya_served)"
    by (simp add: registered_huya_serviceWithRate [OF g3] HuYa_base_url_huya_served)
  have "\<forall>w2 b fresh.
      120 < now_check w2 - datetime_min \<and>
      fst (RealUrlExtractor_get_real_url (HuYa_extract_real_url w2) b
             (reset_last_get_real_url_time huya_served)) = None \<and>
      huya_get_real_url w2 (room (reset_last_get_real_url_time huya_served))
        (if b = Some ''refresh'' then None else b) = Returns fresh \<longrightarrow>
      last_real_urls (snd (HuYa_get_real_url w2 b (reset_last_get_real_url_time huya_served)))
        = Some fresh"
    using manifest_fetch_failure [OF g3, where st = 0 and content = "''v-a''" and e = IndexError and base = "[]"] reg
    by simp
  then have c: "last_real_urls (snd (HuYa_get_real_url (huya_online 1001 [cdn ''a''] [''v-new'']) None
        (reset_last_get_real_url_time huya_served))) = Some [''v-new'']"
    by (simp add: datetime_min_def RealUrlExtractor_get_real_url_def huya_served_fields)
  have d: "fst (serviceWithRate ?forbidden ''huya'' ''55'' None (server_init 7200))
        = response_text ''v-a'' None 403"
    using manifest_fetch_failure [OF g3, where st = 403 and content = "''v-a''" and e = IndexError
                                    and base = "''base-a''"]
    by (simp add: HuYa_base_url_huya_served)
  from a b reg c d show ?thesis by simp
qed


end
